theory Spec2Isabelle
  imports Complex_Main "HOL-Library.AList"
begin

section \<open>Values of the source language\<close>

text \<open>
  The program is JavaScript. Its numbers are modelled as exact rationals, extended by the
  two infinities where the code starts an accumulator at \<open>-Infinity\<close> or \<open>Infinity\<close>
  (the running maximum and minimum temperature of the summarizer). Rounding errors of
  binary floating point and \<open>NaN\<close> are outside the model.
\<close>

datatype num = NegInfinity | Finite rat | Infinity

text \<open>JavaScript's \<open>a < b\<close> on numbers; \<open>a > b\<close> is \<open>num_less b a\<close>.\<close>

fun num_less :: "num \<Rightarrow> num \<Rightarrow> bool" where
  "num_less (Finite a) (Finite b) = (a < b)"
| "num_less NegInfinity (Finite b) = True"
| "num_less NegInfinity Infinity = True"
| "num_less (Finite a) Infinity = True"
| "num_less a b = False"

text \<open>
  A template literal such as \<open>`Wind warning: ${speed} km/h expected.`\<close> is kept as the
  list of its pieces, the literal text and the interpolated values in order, so that the
  model does not have to fix how a number is printed. A plain string literal is the
  one-piece list \<open>[Lit s]\<close>.
\<close>

datatype piece = Lit string | Val num | Undefined

type_synonym str = "piece list"

definition ofRat :: "rat \<Rightarrow> piece" where
  "ofRat r = Val (Finite r)"

definition ofNat :: "nat \<Rightarrow> piece" where
  "ofNat n = Val (Finite (of_nat n))"

definition degreesC :: string where
  "degreesC = [CHR 0xB0, CHR ''C'']"

text \<open>The string literal \<open>""\<close>.\<close>

definition emptyString :: str where
  "emptyString = [Lit []]"

text \<open>A \<open>str\<close> prints as the empty string when it has no piece but empty literals.\<close>

definition printsEmpty :: "str \<Rightarrow> bool" where
  "printsEmpty t = list_all (\<lambda>p. p = Lit []) t"

text \<open>\<open>Array.prototype.push\<close> of one element, returning the updated array.\<close>

definition push :: "'a list \<Rightarrow> 'a \<Rightarrow> 'a list" where
  "push xs x = xs @ [x]"

text \<open>Successive \<open>push\<close> calls on one array, and \<open>push(...items)\<close>.\<close>

definition pushAll :: "'a list \<Rightarrow> 'a list \<Rightarrow> 'a list" where
  "pushAll xs ys = foldl push xs ys"

text \<open>A number is truthy when it is there and not zero.\<close>

definition truthyNumber :: "rat option \<Rightarrow> bool" where
  "truthyNumber x = (case x of None \<Rightarrow> False | Some v \<Rightarrow> v \<noteq> 0)"

text \<open>A string is truthy when it is there and not empty.\<close>

definition truthyString :: "string option \<Rightarrow> bool" where
  "truthyString x = (case x of None \<Rightarrow> False | Some v \<Rightarrow> v \<noteq> [])"

text \<open>\<open>x || d\<close> on an optional number: \<open>d\<close> when \<open>x\<close> is missing or zero.\<close>

definition orElse :: "rat option \<Rightarrow> rat \<Rightarrow> rat" where
  "orElse x d = (case x of None \<Rightarrow> d | Some v \<Rightarrow> if v \<noteq> 0 then v else d)"

text \<open>
  A property read \<open>obj[key]\<close> on an object literal finds the object's own entry, or else
  what every object inherits from \<open>Object.prototype\<close>, or else \<open>undefined\<close>. The
  inherited values are functions (or, for \<open>__proto__\<close>, the prototype object): all truthy,
  and without any of the fields the tables' entries have.
\<close>

datatype 'a property = Own 'a | Inherited | Missing

definition objectPrototypeKeys :: "string list" where
  "objectPrototypeKeys =
     [''constructor'', ''toString'', ''toLocaleString'', ''valueOf'', ''hasOwnProperty'',
      ''isPrototypeOf'', ''propertyIsEnumerable'', ''__proto__'', ''__defineGetter__'',
      ''__defineSetter__'', ''__lookupGetter__'', ''__lookupSetter__'']"

definition getProperty :: "(string \<times> 'a) list \<Rightarrow> string \<Rightarrow> 'a property" where
  "getProperty obj k =
     (case map_of obj k of
        Some v \<Rightarrow> Own v
      | None \<Rightarrow> if k \<in> set objectPrototypeKeys then Inherited else Missing)"

text \<open>
  \<open>String.prototype.toLowerCase\<close> on the characters the model has (code units below
  256): the ASCII capitals and the Latin-1 capitals move by 32.
\<close>

definition toLowerChar :: "char \<Rightarrow> char" where
  "toLowerChar c =
     (let n = (of_char c :: nat)
      in if (65 \<le> n \<and> n \<le> 90) \<or> (192 \<le> n \<and> n \<le> 222 \<and> n \<noteq> 215)
         then char_of (n + 32) else c)"

definition toLowerCase :: "string \<Rightarrow> string" where
  "toLowerCase s = map toLowerChar s"

text \<open>\<open>String.prototype.trim\<close> on the characters the model has.\<close>

definition isWhiteSpace :: "char \<Rightarrow> bool" where
  "isWhiteSpace c = ((of_char c :: nat) \<in> {9, 10, 11, 12, 13, 32, 160})"

definition trim :: "string \<Rightarrow> string" where
  "trim t = rev (dropWhile isWhiteSpace (rev (dropWhile isWhiteSpace t)))"

text \<open>\<open>indexOf\<close>, \<open>lastIndexOf\<close> and \<open>substring\<close> of a string, with \<open>-1\<close> for no match.\<close>

fun indexOfFrom :: "char \<Rightarrow> string \<Rightarrow> int \<Rightarrow> int" where
  "indexOfFrom c [] i = -1"
| "indexOfFrom c (x # xs) i = (if x = c then i else indexOfFrom c xs (i + 1))"

definition indexOf :: "string \<Rightarrow> char \<Rightarrow> int" where
  "indexOf t c = indexOfFrom c t 0"

definition lastIndexOf :: "string \<Rightarrow> char \<Rightarrow> int" where
  "lastIndexOf t c =
     (let r = indexOfFrom c (rev t) 0
      in if r = -1 then -1 else int (length t) - 1 - r)"

text \<open>
  \<open>substring(start, end)\<close> clamps both indices to the string and swaps them when the
  first is the larger.
\<close>

definition substring :: "string \<Rightarrow> int \<Rightarrow> int \<Rightarrow> string" where
  "substring t start end =
     (let n = int (length t);
          a = max 0 (min start n);
          b = max 0 (min end n);
          lo = min a b;
          hi = max a b
      in take (nat (hi - lo)) (drop (nat lo) t))"

text \<open>
  A parsed JSON value. A string is kept as a \<open>str\<close>, so that the warnings of the
  forecast can later stand in the same array as the generator's own.
\<close>

datatype json =
    JNull
  | JBool bool
  | JNumber rat
  | JString str
  | JArray "json list"
  | JObject "(string \<times> json) list"

fun truthy :: "json \<Rightarrow> bool" where
  "truthy JNull = False"
| "truthy (JBool b) = b"
| "truthy (JNumber r) = (r \<noteq> 0)"
| "truthy (JString t) = (\<not> printsEmpty t)"
| "truthy (JArray xs) = True"
| "truthy (JObject kvs) = True"

text \<open>
  Every failure of the source is \<open>throw new Error(message)\<close> or a \<open>TypeError\<close> or
  \<open>SyntaxError\<close> of the runtime. One constructor stands for each message; a handler that
  rethrows \<open>new Error(prefix + error.message)\<close> wraps the error it caught.
\<close>

datatype error =
    InvalidCoordinates
  | CropRequired
  | UnsupportedCrop string
  | InvalidSoilPh
  | InvalidGrowthStateOption
  | InvalidVariety
  | InvalidForecastData
  | TypeError
  | InvalidGrowthState string
  | WeatherKeyNotConfigured
  | WeatherApiError nat
  | WeatherTimeout
  | WeatherUnreachable
  | WeatherServiceError
  | GeminiKeyNotConfigured
  | GeminiInvalidResponseFormat
  | GeminiApiError nat
  | GeminiTimeout
  | GeminiServiceError error
  | NoJsonFound
  | SyntaxError
  | MissingFields "string list"
  | FailedToParse error
  | NetworkError
  | FailedToGenerateAdvice error

text \<open>
  What an HTTP call came to: a response body, an error status, a client timeout
  (\<open>ECONNABORTED\<close>), an unknown host (\<open>ENOTFOUND\<close>) or any other failure. For the
  generator the body is the text at \<open>candidates[0].content.parts[0].text\<close>, \<open>None\<close> when
  the optional chain ends in \<open>undefined\<close>.
\<close>

datatype 'a httpOutcome = Responded 'a | StatusError nat | Aborted | HostNotFound | OtherFailure

section \<open>Static configuration (config.js)\<close>

text \<open>
  The part of the process environment the configuration reads: the two API keys and the
  optional default coordinates, already through \<open>parseFloat\<close> (\<open>None\<close> when the variable is
  unset or not a number).
\<close>

record env =
  GEMINI_API_KEY :: "string option"
  OPENWEATHER_API_KEY :: "string option"
  DEFAULT_LAT :: "rat option"
  DEFAULT_LON :: "rat option"

record config =
  geminiApiKey :: "string option"
  openWeatherApiKey :: "string option"
  defaultLat :: rat
  defaultLon :: rat

definition loadConfig :: "env \<Rightarrow> config" where
  "loadConfig e =
     \<lparr>geminiApiKey = GEMINI_API_KEY e,
      openWeatherApiKey = OPENWEATHER_API_KEY e,
      defaultLat = orElse (DEFAULT_LAT e) (-1.9441),
      defaultLon = orElse (DEFAULT_LON e) 30.0619\<rparr>"

record phRange =
  ph_min :: rat
  ph_max :: rat
  ph_optimal :: rat

record varietyInfo =
  variety_description :: string
  droughtResistance :: string

record cropInfo =
  crop_name :: string
  waterNeeds :: string
  crop_season :: string
  growthPeriod :: string
  crop_soilPh :: phRange
  growthStates :: "string list"
  varieties :: "(string \<times> varietyInfo) list"

definition allGrowthStates :: "string list" where
  "allGrowthStates = [''germination'', ''vegetative'', ''flowering'', ''fruiting'']"

text \<open>The tables \<open>crops\<close> and \<open>growthStates\<close>, as association lists.\<close>

definition crops :: "(string \<times> cropInfo) list" where
  "crops =
     [(''maize'',
       \<lparr>crop_name = ''Maize'', waterNeeds = ''high'', crop_season = ''longRains'',
        growthPeriod = ''90-120 days'',
        crop_soilPh = \<lparr>ph_min = 5.5, ph_max = 7.5, ph_optimal = 6.5\<rparr>,
        growthStates = allGrowthStates,
        varieties =
          [(''hybrid_maize'', \<lparr>variety_description = ''High-yield hybrid varieties'',
                               droughtResistance = ''moderate''\<rparr>),
           (''local_maize'', \<lparr>variety_description = ''Traditional local varieties'',
                              droughtResistance = ''high''\<rparr>),
           (''sweet_corn'', \<lparr>variety_description = ''Sweet corn varieties'',
                             droughtResistance = ''low''\<rparr>)]\<rparr>),
      (''beans'',
       \<lparr>crop_name = ''Beans'', waterNeeds = ''moderate'', crop_season = ''shortRains'',
        growthPeriod = ''60-90 days'',
        crop_soilPh = \<lparr>ph_min = 6.0, ph_max = 7.5, ph_optimal = 6.8\<rparr>,
        growthStates = allGrowthStates,
        varieties =
          [(''climbing_beans'', \<lparr>variety_description = ''Climbing bean varieties'',
                                 droughtResistance = ''moderate''\<rparr>),
           (''bush_beans'', \<lparr>variety_description = ''Bush bean varieties'',
                             droughtResistance = ''high''\<rparr>),
           (''kidney_beans'', \<lparr>variety_description = ''Kidney bean varieties'',
                               droughtResistance = ''moderate''\<rparr>)]\<rparr>),
      (''potatoes'',
       \<lparr>crop_name = ''Potatoes'', waterNeeds = ''moderate'', crop_season = ''longRains'',
        growthPeriod = ''90-120 days'',
        crop_soilPh = \<lparr>ph_min = 5.0, ph_max = 6.5, ph_optimal = 5.8\<rparr>,
        growthStates = allGrowthStates,
        varieties =
          [(''irish_potato'', \<lparr>variety_description = ''Traditional Irish potato'',
                               droughtResistance = ''moderate''\<rparr>),
           (''sweet_potato'', \<lparr>variety_description = ''Sweet potato varieties'',
                               droughtResistance = ''high''\<rparr>),
           (''new_potato'', \<lparr>variety_description = ''Early maturing varieties'',
                             droughtResistance = ''moderate''\<rparr>)]\<rparr>),
      (''bananas'',
       \<lparr>crop_name = ''Bananas'', waterNeeds = ''high'', crop_season = ''all'',
        growthPeriod = ''9-12 months'',
        crop_soilPh = \<lparr>ph_min = 5.5, ph_max = 7.0, ph_optimal = 6.2\<rparr>,
        growthStates = allGrowthStates,
        varieties =
          [(''cavendish'', \<lparr>variety_description = ''Cavendish banana variety'',
                            droughtResistance = ''moderate''\<rparr>),
           (''plantain'', \<lparr>variety_description = ''Plantain varieties'',
                           droughtResistance = ''high''\<rparr>),
           (''lady_finger'', \<lparr>variety_description = ''Lady finger banana'',
                              droughtResistance = ''low''\<rparr>)]\<rparr>)]"

record growthStateInfo =
  state_description :: string
  duration :: string

definition growthStatesTable :: "(string \<times> growthStateInfo) list" where
  "growthStatesTable =
     [(''germination'', \<lparr>state_description = ''Seed germination and early seedling stage'',
                         duration = ''7-14 days''\<rparr>),
      (''vegetative'', \<lparr>state_description = ''Active growth of leaves and stems'',
                        duration = ''30-60 days''\<rparr>),
      (''flowering'', \<lparr>state_description = ''Flower development and pollination'',
                       duration = ''7-21 days''\<rparr>),
      (''fruiting'', \<lparr>state_description = ''Fruit development and maturation'',
                      duration = ''30-90 days''\<rparr>)]"

text \<open>The soil pH categories, with the \<open>range\<close> and \<open>description\<close> texts of the table.\<close>

datatype soilPhCategory =
  very_acidic | acidic | slightly_acidic | neutral | slightly_alkaline | alkaline

fun category_range :: "soilPhCategory \<Rightarrow> string" where
  "category_range very_acidic = ''4.0-5.0''"
| "category_range acidic = ''5.1-6.0''"
| "category_range slightly_acidic = ''6.1-6.5''"
| "category_range neutral = ''6.6-7.3''"
| "category_range slightly_alkaline = ''7.4-7.8''"
| "category_range alkaline = ''7.9-8.5''"

fun category_description :: "soilPhCategory \<Rightarrow> string" where
  "category_description very_acidic = ''Very acidic soil, may need lime application''"
| "category_description acidic = ''Acidic soil, suitable for acid-loving crops''"
| "category_description slightly_acidic = ''Slightly acidic, good for most crops''"
| "category_description neutral = ''Neutral pH, optimal for most crops''"
| "category_description slightly_alkaline = ''Slightly alkaline, may need acidification''"
| "category_description alkaline = ''Alkaline soil, may limit nutrient availability''"

text \<open>The thresholds of \<open>weatherThresholds\<close> that the program reads.\<close>

definition temperature_min :: rat where "temperature_min = 10"
definition temperature_max :: rat where "temperature_max = 35"
definition windSpeed_warning :: rat where "windSpeed_warning = 20"
definition windSpeed_danger :: rat where "windSpeed_danger = 40"
definition rainfall_heavy :: rat where "rainfall_heavy = 15"

section \<open>Forecast summary and weather warnings (weatherUtils.js)\<close>

text \<open>
  \<open>detectCurrentSeason\<close>, from the month of the clock (1 to 12). The entry of
  \<open>config.seasons\<close> is spread last, so its \<open>description\<close> is the one returned.
\<close>

record seasonInfo =
  si_season :: string
  si_description :: string
  currentMonth :: nat
  si_start :: string
  si_end :: string

definition detectCurrentSeason :: "nat \<Rightarrow> seasonInfo" where
  "detectCurrentSeason m =
     (if m \<ge> 1 \<and> m \<le> 2 then
        \<lparr>si_season = ''shortDry'', si_description = ''Short dry season'', currentMonth = m,
         si_start = ''January'', si_end = ''February''\<rparr>
      else if m \<ge> 3 \<and> m \<le> 5 then
        \<lparr>si_season = ''longRains'', si_description = ''Long rainy season'', currentMonth = m,
         si_start = ''March'', si_end = ''May''\<rparr>
      else if m \<ge> 6 \<and> m \<le> 9 then
        \<lparr>si_season = ''longDry'', si_description = ''Long dry season'', currentMonth = m,
         si_start = ''June'', si_end = ''September''\<rparr>
      else
        \<lparr>si_season = ''shortRains'', si_description = ''Short rainy season'', currentMonth = m,
         si_start = ''October'', si_end = ''December''\<rparr>)"

record location =
  loc_lat :: rat
  loc_lon :: rat
  loc_name :: string

text \<open>
  The field \<open>warnings\<close> does not exist on a summary until the orchestrator assigns it;
  an absent field is \<open>None\<close>.
\<close>

record forecastSummary =
  totalRainfall :: rat
  maxTemperature :: num
  minTemperature :: num
  maxWindSpeed :: rat
  rainHours :: nat
  heavyRainHours :: nat
  windHours :: nat
  conditions :: "string list"
  forecastPeriod :: string
  location :: location
  warnings :: "str list option"

text \<open>
  One entry of the provider's \<open>list\<close>: \<open>main.temp\<close>, the optional \<open>rain['3h']\<close> (absent
  when the entry has no \<open>rain\<close> object or the object has no \<open>3h\<close> field) and the optional
  \<open>wind.speed\<close> (absent when the entry has no \<open>wind\<close> object).
\<close>

record forecastPoint =
  main_temp :: rat
  rain_3h :: "rat option"
  wind_speed :: "rat option"

record city =
  coord :: location

text \<open>
  The payload: \<open>fd_list\<close> is its \<open>list\<close> and \<open>fd_city\<close> its \<open>city\<close>, each \<open>None\<close> when the
  payload does not have the field. The city's \<open>coord\<close> and \<open>name\<close> are kept in one
  \<open>location\<close>. A payload that is \<open>null\<close> or \<open>undefined\<close> is \<open>None\<close>.
\<close>

record forecastData =
  fd_list :: "forecastPoint list option"
  fd_city :: "city option"

record accumulators =
  acc_totalRainfall :: rat
  acc_maxTemp :: num
  acc_minTemp :: num
  acc_maxWindSpeed :: rat
  acc_rainHours :: nat
  acc_heavyRainHours :: nat
  acc_windHours :: nat

definition initialAccumulators :: accumulators where
  "initialAccumulators =
     \<lparr>acc_totalRainfall = 0, acc_maxTemp = NegInfinity, acc_minTemp = Infinity,
      acc_maxWindSpeed = 0, acc_rainHours = 0, acc_heavyRainHours = 0, acc_windHours = 0\<rparr>"

text \<open>The body of the \<open>forEach\<close>. A number is truthy when it is not zero.\<close>

definition forEachBody :: "accumulators \<Rightarrow> forecastPoint \<Rightarrow> accumulators" where
  "forEachBody a forecast =
     (let a1 = (if num_less (acc_maxTemp a) (Finite (main_temp forecast))
                then a\<lparr>acc_maxTemp := Finite (main_temp forecast)\<rparr> else a);
          a2 = (if num_less (Finite (main_temp forecast)) (acc_minTemp a1)
                then a1\<lparr>acc_minTemp := Finite (main_temp forecast)\<rparr> else a1);
          a3 = (case rain_3h forecast of
                  None \<Rightarrow> a2
                | Some r \<Rightarrow>
                    if r \<noteq> 0
                    then (let b = a2\<lparr>acc_totalRainfall := acc_totalRainfall a2 + r,
                                      acc_rainHours := acc_rainHours a2 + 1\<rparr>
                          in if r \<ge> rainfall_heavy
                             then b\<lparr>acc_heavyRainHours := acc_heavyRainHours b + 1\<rparr>
                             else b)
                    else a2);
          a4 = (case wind_speed forecast of
                  None \<Rightarrow> a3
                | Some w \<Rightarrow>
                    if w > acc_maxWindSpeed a3 then a3\<lparr>acc_maxWindSpeed := w\<rparr> else a3);
          a5 = (case wind_speed forecast of
                  None \<Rightarrow> a4
                | Some w \<Rightarrow>
                    if w \<ge> windSpeed_warning
                    then a4\<lparr>acc_windHours := acc_windHours a4 + 1\<rparr> else a4)
      in a5)"

text \<open>\<open>Math.round(x)\<close> is \<open>\<lfloor>x + 1/2\<rfloor>\<close>, which is \<^const>\<open>round\<close>.\<close>

definition roundTenth :: "rat \<Rightarrow> rat" where
  "roundTenth x = of_int (round (x * 10)) / 10"

fun kelvinToCelsius :: "num \<Rightarrow> num" where
  "kelvinToCelsius (Finite t) = Finite (roundTenth (t - 273.15))"
| "kelvinToCelsius NegInfinity = NegInfinity"
| "kelvinToCelsius Infinity = Infinity"

definition summarizeForecast :: "forecastData option \<Rightarrow> error + forecastSummary" where
  "summarizeForecast forecastData =
     (case forecastData of
        None \<Rightarrow> Inl InvalidForecastData
      | Some fd \<Rightarrow>
         (case fd_list fd of
            None \<Rightarrow> Inl InvalidForecastData
          | Some l \<Rightarrow>
             (let forecasts = take 16 l;
                  a = foldl forEachBody initialAccumulators forecasts;
                  maxTempC = kelvinToCelsius (acc_maxTemp a);
                  minTempC = kelvinToCelsius (acc_minTemp a);
                  maxWindKmh = of_int (round (acc_maxWindSpeed a * 3.6));
                  c0 = [];
                  c1 = (if acc_totalRainfall a > 0 then push c0 ''rain'' else c0);
                  c2 = (if acc_heavyRainHours a > 0 then push c1 ''heavy_rain'' else c1);
                  c3 = (if acc_windHours a > 0 then push c2 ''wind'' else c2);
                  c4 = (if num_less (Finite temperature_max) maxTempC
                        then push c3 ''high_temperature'' else c3);
                  c5 = (if num_less minTempC (Finite temperature_min)
                        then push c4 ''low_temperature'' else c4)
              in case fd_city fd of
                   None \<Rightarrow> Inl TypeError
                 | Some c \<Rightarrow>
                     Inr \<lparr>totalRainfall = roundTenth (acc_totalRainfall a),
                          maxTemperature = maxTempC,
                          minTemperature = minTempC,
                          maxWindSpeed = maxWindKmh,
                          rainHours = acc_rainHours a,
                          heavyRainHours = acc_heavyRainHours a,
                          windHours = acc_windHours a,
                          conditions = c5,
                          forecastPeriod = ''48 hours'',
                          location = coord c,
                          warnings = None\<rparr>)))"

definition highTemperatureWarning :: "num \<Rightarrow> str" where
  "highTemperatureWarning t =
     [Lit ''High temperature warning: '', Val t,
      Lit (degreesC @ '' expected. Consider shade protection for crops.'')]"

definition lowTemperatureWarning :: "num \<Rightarrow> str" where
  "lowTemperatureWarning t =
     [Lit ''Low temperature warning: '', Val t,
      Lit (degreesC @ '' expected. Protect sensitive crops from cold.'')]"

definition dangerousWindWarning :: "rat \<Rightarrow> str" where
  "dangerousWindWarning w =
     [Lit ''Dangerous wind conditions: '', ofRat w,
      Lit '' km/h expected. Secure structures and protect crops.'']"

definition windWarning :: "rat \<Rightarrow> str" where
  "windWarning w =
     [Lit ''Wind warning: '', ofRat w,
      Lit '' km/h expected. Consider wind protection for tall crops.'']"

definition heavyRainWarning :: "nat \<Rightarrow> str" where
  "heavyRainWarning n =
     [Lit ''Heavy rainfall expected: '', ofNat n,
      Lit '' periods of heavy rain. Ensure proper drainage.'']"

definition noRainWarning :: str where
  "noRainWarning =
     [Lit ''No rainfall expected in the next 48 hours. Consider irrigation for water-dependent crops.'']"

definition generateWeatherWarnings :: "forecastSummary \<Rightarrow> str list" where
  "generateWeatherWarnings fs =
     (let warnings0 = [];
          warnings1 =
            (if num_less (Finite temperature_max) (maxTemperature fs)
             then push warnings0 (highTemperatureWarning (maxTemperature fs))
             else warnings0);
          warnings2 =
            (if num_less (minTemperature fs) (Finite temperature_min)
             then push warnings1 (lowTemperatureWarning (minTemperature fs))
             else warnings1);
          warnings3 =
            (if maxWindSpeed fs \<ge> windSpeed_danger
             then push warnings2 (dangerousWindWarning (maxWindSpeed fs))
             else if maxWindSpeed fs \<ge> windSpeed_warning
             then push warnings2 (windWarning (maxWindSpeed fs))
             else warnings2);
          warnings4 =
            (if heavyRainHours fs > 0
             then push warnings3 (heavyRainWarning (heavyRainHours fs))
             else warnings3);
          warnings5 =
            (if totalRainfall fs = 0 \<and> rainHours fs = 0
             then push warnings4 noRainWarning
             else warnings4)
      in warnings5)"

text \<open>The coordinate check and the default coordinates.\<close>

definition validateCoordinates :: "rat \<Rightarrow> rat \<Rightarrow> bool" where
  "validateCoordinates lat lon = (lat \<ge> -90 \<and> lat \<le> 90 \<and> lon \<ge> -180 \<and> lon \<le> 180)"

definition getDefaultCoordinates :: "config \<Rightarrow> rat \<times> rat" where
  "getDefaultCoordinates cfg = (defaultLat cfg, defaultLon cfg)"

section \<open>The rule-based advisor (cropUtils.js)\<close>

text \<open>
  \<open>getCropInfo\<close> returns whatever the table read gives when it is truthy: an entry of the
  table, or an inherited value for a key such as \<open>constructor\<close>.
\<close>

definition getCropInfo :: "string \<Rightarrow> error + cropInfo property" where
  "getCropInfo cropType =
     (case getProperty crops (toLowerCase cropType) of
        Missing \<Rightarrow> Inl (UnsupportedCrop cropType)
      | crop \<Rightarrow> Inr crop)"

definition validateCropType :: "string \<Rightarrow> bool" where
  "validateCropType cropType =
     (cropType \<noteq> [] \<and> getProperty crops (toLowerCase cropType) \<noteq> Missing)"

definition getCropSoilPh :: "string \<Rightarrow> error + phRange" where
  "getCropSoilPh cropType =
     (case getCropInfo cropType of
        Inl e \<Rightarrow> Inl e
      | Inr (Own crop) \<Rightarrow> Inr (crop_soilPh crop)
      | Inr _ \<Rightarrow> Inr \<lparr>ph_min = 6.0, ph_max = 7.0, ph_optimal = 6.5\<rparr>)"

record suitability =
  suitable :: bool
  message :: str
  recommendation :: "string option"

definition isSoilPhSuitableForCrop :: "string \<Rightarrow> rat option \<Rightarrow> error + suitability" where
  "isSoilPhSuitableForCrop cropType soilPh =
     (case soilPh of
        None \<Rightarrow>
          Inr \<lparr>suitable = True, message = [Lit ''Soil pH not specified''],
               recommendation = None\<rparr>
      | Some ph \<Rightarrow>
         (case getCropSoilPh cropType of
            Inl e \<Rightarrow> Inl e
          | Inr cropPh \<Rightarrow>
             (let isSuitable = (ph \<ge> ph_min cropPh \<and> ph \<le> ph_max cropPh)
              in if isSuitable then
                   Inr \<lparr>suitable = isSuitable,
                        message = [Lit ''Soil pH '', ofRat ph, Lit '' is suitable for '',
                                   Lit cropType],
                        recommendation = None\<rparr>
                 else if ph < ph_min cropPh then
                   Inr \<lparr>suitable = isSuitable,
                        message = [Lit ''Soil pH '', ofRat ph, Lit '' is too acidic for '',
                                   Lit cropType, Lit ''. Minimum required: '',
                                   ofRat (ph_min cropPh)],
                        recommendation = Some ''Consider adding lime to raise soil pH''\<rparr>
                 else
                   Inr \<lparr>suitable = isSuitable,
                        message = [Lit ''Soil pH '', ofRat ph, Lit '' is too alkaline for '',
                                   Lit cropType, Lit ''. Maximum allowed: '',
                                   ofRat (ph_max cropPh)],
                        recommendation =
                          Some ''Consider adding sulfur or organic matter to lower soil pH''\<rparr>)))"

text \<open>
  \<open>getGrowthStateInfo\<close>: \<open>null\<close> (here \<open>None\<close>) for a falsy argument, an error for a name
  that reads as \<open>undefined\<close>, and otherwise the entry read, own or inherited.
\<close>

definition getGrowthStateInfo ::
  "string option \<Rightarrow> error + growthStateInfo property option" where
  "getGrowthStateInfo growthState =
     (if \<not> truthyString growthState then Inr None
      else case getProperty growthStatesTable (the growthState) of
             Missing \<Rightarrow> Inl (InvalidGrowthState (the growthState))
           | stateInfo \<Rightarrow> Inr (Some stateInfo))"

definition getSoilPhCategory :: "rat option \<Rightarrow> soilPhCategory option" where
  "getSoilPhCategory soilPh =
     (case soilPh of
        None \<Rightarrow> None
      | Some ph \<Rightarrow>
          if ph \<ge> 4.0 \<and> ph \<le> 5.0 then Some very_acidic
          else if ph \<ge> 5.1 \<and> ph \<le> 6.0 then Some acidic
          else if ph \<ge> 6.1 \<and> ph \<le> 6.5 then Some slightly_acidic
          else if ph \<ge> 6.6 \<and> ph \<le> 7.3 then Some neutral
          else if ph \<ge> 7.4 \<and> ph \<le> 7.8 then Some slightly_alkaline
          else if ph \<ge> 7.9 \<and> ph \<le> 8.5 then Some alkaline
          else None)"

record resourceNeed =
  resource :: string
  purpose :: string
  quantity :: string
  cost_estimate :: string
  where_to_get :: string

record disease =
  disease_name :: string
  symptoms :: string
  risk_factors :: string
  prevention :: string
  treatment :: string
  seasonal_risk :: string

text \<open>
  The advice object the advisor builds. Its list field \<open>warnings\<close> is written \<open>warnings'\<close>
  here, the summary's field having the plain name.
\<close>

record advice =
  forecast_summary :: str
  season :: string
  crop :: string
  soil_ph_analysis :: str
  growth_stage_advice :: str
  variety_specific_tips :: str
  actions :: "str list"
  resources_needed :: "resourceNeed list"
  possible_diseases :: "disease list"
  warnings' :: "str list"
  productivity_tips :: "str list"

definition initialAdvice :: "string \<Rightarrow> string \<Rightarrow> forecastSummary \<Rightarrow> advice" where
  "initialAdvice cropType seasonName forecastSummary =
     \<lparr>forecast_summary =
        [Lit ''Weather forecast for next 48 hours: '', ofRat (totalRainfall forecastSummary),
         Lit ''mm rainfall, '', Val (minTemperature forecastSummary),
         Lit (degreesC @ '' to ''), Val (maxTemperature forecastSummary),
         Lit (degreesC @ '', wind up to ''), ofRat (maxWindSpeed forecastSummary),
         Lit '' km/h''],
      season = seasonName,
      crop = cropType,
      soil_ph_analysis = emptyString,
      growth_stage_advice = emptyString,
      variety_specific_tips = emptyString,
      actions = [],
      resources_needed = [],
      possible_diseases = [],
      warnings' = [],
      productivity_tips = []\<rparr>"

text \<open>The soil pH block, entered when \<open>soilPh\<close> is neither \<open>undefined\<close> nor \<open>null\<close>.\<close>

definition soilPhBlock :: "string \<Rightarrow> rat option \<Rightarrow> advice \<Rightarrow> error + advice" where
  "soilPhBlock cropType soilPh a =
     (case soilPh of
        None \<Rightarrow> Inr a
      | Some ph \<Rightarrow>
         (case isSoilPhSuitableForCrop cropType (Some ph) of
            Inl e \<Rightarrow> Inl e
          | Inr soilSuitability \<Rightarrow>
             (let phCategory = getSoilPhCategory (Some ph);
                  a1 = (if \<not> suitable soilSuitability then
                          (let b = a\<lparr>warnings' := push (warnings' a) (message soilSuitability)\<rparr>
                           in if truthyString (recommendation soilSuitability)
                              then b\<lparr>actions :=
                                       push (actions b) [Lit (the (recommendation soilSuitability))]\<rparr>
                              else b)
                        else
                          a\<lparr>productivity_tips :=
                              push (productivity_tips a)
                                [Lit ''Soil pH '', ofRat ph, Lit '' is optimal for '',
                                 Lit cropType, Lit '' growth'']\<rparr>);
                  a2 = (case phCategory of
                          None \<Rightarrow> a1
                        | Some c \<Rightarrow>
                            a1\<lparr>productivity_tips :=
                                 push (productivity_tips a1)
                                   [Lit ''Soil category: '', Lit (category_description c)]\<rparr>)
              in Inr (a2\<lparr>soil_ph_analysis :=
                           [Lit ''Soil pH '', ofRat ph, Lit '' analysis: '']
                           @ message soilSuitability\<rparr>))))"

text \<open>What \<open>${info.description}\<close> and \<open>${info.duration}\<close> print for the entry read.\<close>

fun descriptionOf :: "growthStateInfo property \<Rightarrow> piece" where
  "descriptionOf (Own i) = Lit (state_description i)"
| "descriptionOf _ = Undefined"

fun durationOf :: "growthStateInfo property \<Rightarrow> piece" where
  "durationOf (Own i) = Lit (duration i)"
| "durationOf _ = Undefined"

definition growthStateActions :: "string \<Rightarrow> str list" where
  "growthStateActions g =
     (if g = ''germination'' then
        [[Lit ''Ensure consistent soil moisture for seed germination''],
         [Lit ''Protect seedlings from extreme weather conditions'']]
      else if g = ''vegetative'' then
        [[Lit ''Provide adequate nitrogen for leaf and stem development''],
         [Lit ''Control weeds to reduce competition for nutrients'']]
      else if g = ''flowering'' then
        [[Lit ''Ensure adequate water during flowering to prevent flower drop''],
         [Lit ''Avoid spraying pesticides during flowering to protect pollinators'']]
      else if g = ''fruiting'' then
        [[Lit ''Provide balanced nutrition for fruit development''],
         [Lit ''Support heavy fruit clusters to prevent breakage'']]
      else [])"

definition growthStateBlock :: "string option \<Rightarrow> advice \<Rightarrow> error + advice" where
  "growthStateBlock growthState a =
     (if truthyString growthState then
        (case getGrowthStateInfo growthState of
           Inl e \<Rightarrow> Inl e
         | Inr None \<Rightarrow> Inr a
         | Inr (Some growthInfo) \<Rightarrow>
             Inr (a\<lparr>productivity_tips :=
                      push (productivity_tips a)
                        [Lit ''Current growth stage: '', descriptionOf growthInfo, Lit '' ('',
                         durationOf growthInfo, Lit '')''],
                    growth_stage_advice :=
                      [Lit ''Growth stage '', Lit (the growthState), Lit '': '',
                       descriptionOf growthInfo],
                    actions := pushAll (actions a) (growthStateActions (the growthState))\<rparr>))
      else Inr a)"

text \<open>
  The variety block, entered when \<open>variety\<close> is truthy, the crop has \<open>varieties\<close> and the
  read \<open>crop.varieties[variety]\<close> is truthy.
\<close>

fun varietyDescriptionOf :: "varietyInfo property \<Rightarrow> piece" where
  "varietyDescriptionOf (Own v) = Lit (variety_description v)"
| "varietyDescriptionOf _ = Undefined"

fun droughtResistanceOf :: "varietyInfo property \<Rightarrow> piece" where
  "droughtResistanceOf (Own v) = Lit (droughtResistance v)"
| "droughtResistanceOf _ = Undefined"

definition varietyBlock ::
  "cropInfo property \<Rightarrow> string option \<Rightarrow> forecastSummary \<Rightarrow> advice \<Rightarrow> advice" where
  "varietyBlock cropEntry variety forecastSummary a =
     (case cropEntry of
        Own c \<Rightarrow>
          (if truthyString variety \<and> getProperty (varieties c) (the variety) \<noteq> Missing then
             (let varietyInfo = getProperty (varieties c) (the variety);
                  a1 = a\<lparr>productivity_tips :=
                           pushAll (productivity_tips a)
                             [[Lit ''Variety: '', varietyDescriptionOf varietyInfo],
                              [Lit ''Drought resistance: '', droughtResistanceOf varietyInfo]],
                         variety_specific_tips :=
                           [Lit ''Variety '', Lit (the variety), Lit '': '',
                            varietyDescriptionOf varietyInfo, Lit '' with '',
                            droughtResistanceOf varietyInfo, Lit '' drought resistance'']\<rparr>
              in if droughtResistanceOf varietyInfo = Lit ''low''
                    \<and> totalRainfall forecastSummary = 0
                 then a1\<lparr>warnings' :=
                           push (warnings' a1)
                             [Lit ''Low drought resistance variety selected during dry conditions''],
                         actions :=
                           push (actions a1)
                             [Lit ''Increase irrigation frequency for this variety'']\<rparr>
                 else a1)
           else a)
      | _ \<Rightarrow> a)"

text \<open>
  The \<open>switch (season)\<close>: one of four branches, or none for any other string.
\<close>

definition seasonBlock :: "string \<Rightarrow> advice \<Rightarrow> advice" where
  "seasonBlock seasonName a =
     (if seasonName = ''shortDry'' then
        a\<lparr>actions := pushAll (actions a)
           [[Lit ''Prepare irrigation systems for water-dependent crops''],
            [Lit ''Apply mulch to retain soil moisture''],
            [Lit ''Consider drought-resistant crop varieties'']],
        resources_needed := pushAll (resources_needed a)
           [\<lparr>resource = ''Irrigation equipment'',
              purpose = ''Water delivery to crops'',
              quantity = ''As needed based on field size'',
              cost_estimate = ''50,000-200,000 RWF'',
              where_to_get = ''Local agricultural supply stores''\<rparr>,
            \<lparr>resource = ''Organic mulch'',
              purpose = ''Soil moisture retention'',
              quantity = ''2-3 tons per hectare'',
              cost_estimate = ''15,000-25,000 RWF per ton'',
              where_to_get = ''Local farms, agricultural cooperatives''\<rparr>]\<rparr>
      else if seasonName = ''longRains'' then
        a\<lparr>actions := pushAll (actions a)
           [[Lit ''Ensure proper drainage systems are in place''],
            [Lit ''Plant crops that thrive in wet conditions''],
            [Lit ''Monitor for fungal diseases due to high humidity'']],
        resources_needed := pushAll (resources_needed a)
           [\<lparr>resource = ''Drainage materials'',
              purpose = ''Prevent waterlogging'',
              quantity = ''As needed for field drainage'',
              cost_estimate = ''20,000-50,000 RWF'',
              where_to_get = ''Construction supply stores''\<rparr>,
            \<lparr>resource = ''Fungicides'',
              purpose = ''Prevent fungal diseases'',
              quantity = ''2-3 applications per season'',
              cost_estimate = ''5,000-15,000 RWF per application'',
              where_to_get = ''Agricultural chemical suppliers''\<rparr>]\<rparr>
      else if seasonName = ''longDry'' then
        a\<lparr>actions := pushAll (actions a)
           [[Lit ''Implement water conservation techniques''],
            [Lit ''Use shade nets for sensitive crops''],
            [Lit ''Focus on drought-tolerant crops'']],
        resources_needed := pushAll (resources_needed a)
           [\<lparr>resource = ''Shade nets'',
              purpose = ''Protect crops from excessive sun'',
              quantity = ''Cover entire field area'',
              cost_estimate = ''30,000-80,000 RWF per hectare'',
              where_to_get = ''Agricultural supply stores''\<rparr>,
            \<lparr>resource = ''Water storage containers'',
              purpose = ''Store collected rainwater'',
              quantity = ''1000-5000 liters capacity'',
              cost_estimate = ''25,000-100,000 RWF'',
              where_to_get = ''Hardware stores, agricultural suppliers''\<rparr>]\<rparr>
      else if seasonName = ''shortRains'' then
        a\<lparr>actions := pushAll (actions a)
           [[Lit ''Take advantage of moisture for planting''],
            [Lit ''Prepare for the upcoming dry season''],
            [Lit ''Harvest crops before heavy rains'']],
        resources_needed := pushAll (resources_needed a)
           [\<lparr>resource = ''Planting tools'',
              purpose = ''Efficient crop planting'',
              quantity = ''1 set per farmer'',
              cost_estimate = ''15,000-30,000 RWF'',
              where_to_get = ''Agricultural tool stores''\<rparr>,
            \<lparr>resource = ''Harvesting equipment'',
              purpose = ''Timely crop harvesting'',
              quantity = ''As needed for crop type'',
              cost_estimate = ''10,000-50,000 RWF'',
              where_to_get = ''Agricultural equipment suppliers''\<rparr>]\<rparr>
      else a)"

text \<open>The three independent weather checks.\<close>

definition zeroRainfallBlock :: "forecastSummary \<Rightarrow> advice \<Rightarrow> advice" where
  "zeroRainfallBlock forecastSummary a =
     (if totalRainfall forecastSummary = 0 then
        a\<lparr>actions := pushAll (actions a)
           [[Lit ''Schedule irrigation for water-dependent crops''],
            [Lit ''Check soil moisture levels regularly'']],
        resources_needed := pushAll (resources_needed a)
           [\<lparr>resource = ''Soil moisture meter'',
              purpose = ''Monitor soil water content'',
              quantity = ''1 per field'',
              cost_estimate = ''8,000-15,000 RWF'',
              where_to_get = ''Agricultural supply stores''\<rparr>]\<rparr>
      else a)"

definition heavyRainBlock :: "forecastSummary \<Rightarrow> advice \<Rightarrow> advice" where
  "heavyRainBlock forecastSummary a =
     (if heavyRainHours forecastSummary > 0 then
        a\<lparr>actions := pushAll (actions a)
           [[Lit ''Secure any loose structures or equipment''],
            [Lit ''Ensure drainage channels are clear'']],
        resources_needed := pushAll (resources_needed a)
           [\<lparr>resource = ''Drainage tools'',
              purpose = ''Clear drainage channels'',
              quantity = ''1 set per field'',
              cost_estimate = ''5,000-12,000 RWF'',
              where_to_get = ''Hardware stores''\<rparr>]\<rparr>
      else a)"

definition windBlock :: "forecastSummary \<Rightarrow> advice \<Rightarrow> advice" where
  "windBlock forecastSummary a =
     (if maxWindSpeed forecastSummary \<ge> windSpeed_warning then
        a\<lparr>actions := pushAll (actions a)
           [[Lit ''Provide wind protection for tall crops''],
            [Lit ''Secure trellises and support structures'']],
        resources_needed := pushAll (resources_needed a)
           [\<lparr>resource = ''Wind barriers'',
              purpose = ''Protect crops from wind damage'',
              quantity = ''Perimeter of field'',
              cost_estimate = ''20,000-60,000 RWF per hectare'',
              where_to_get = ''Agricultural supply stores''\<rparr>]\<rparr>
      else a)"

text \<open>
  The \<open>switch (cropType.toLowerCase())\<close>. The seasonal risk of each disease is the
  conditional expression of its own branch.
\<close>

definition cropBlock :: "string \<Rightarrow> string \<Rightarrow> advice \<Rightarrow> advice" where
  "cropBlock cropType seasonName a =
     (if toLowerCase cropType = ''maize'' then
        a\<lparr>productivity_tips := pushAll (productivity_tips a)
           [[Lit ''Plant in rows with proper spacing (75cm between rows)''],
            [Lit ''Apply nitrogen fertilizer in split applications''],
            [Lit ''Control weeds early in the growing season'']],
        resources_needed := pushAll (resources_needed a)
           [\<lparr>resource = ''Nitrogen fertilizer (NPK)'',
              purpose = ''Provide essential nutrients for growth'',
              quantity = ''200-300 kg per hectare'',
              cost_estimate = ''80,000-120,000 RWF per hectare'',
              where_to_get = ''Agricultural cooperatives, fertilizer suppliers''\<rparr>,
            \<lparr>resource = ''Weed control herbicides'',
              purpose = ''Control competing weeds'',
              quantity = ''2-3 applications per season'',
              cost_estimate = ''15,000-25,000 RWF per application'',
              where_to_get = ''Agricultural chemical suppliers''\<rparr>],
        possible_diseases := pushAll (possible_diseases a)
           [\<lparr>disease_name = ''Maize Lethal Necrosis'',
              symptoms = ''Yellowing leaves, stunted growth, poor grain development'',
              risk_factors = ''High humidity, poor drainage, infected seeds'',
              prevention = ''Use certified seeds, maintain field hygiene, proper spacing'',
              treatment = ''Remove infected plants, apply fungicides if early detected'',
              seasonal_risk = (if seasonName = ''longRains'' then ''High'' else ''Medium'')\<rparr>,
            \<lparr>disease_name = ''Common Rust'',
              symptoms = ''Reddish-brown pustules on leaves, reduced photosynthesis'',
              risk_factors = ''High humidity, dense planting, poor air circulation'',
              prevention = ''Plant resistant varieties, maintain proper spacing'',
              treatment = ''Apply fungicides, remove infected plant debris'',
              seasonal_risk = (if seasonName = ''longRains'' then ''High'' else ''Low'')\<rparr>]\<rparr>
      else if toLowerCase cropType = ''beans'' then
        a\<lparr>productivity_tips := pushAll (productivity_tips a)
           [[Lit ''Use trellises for climbing varieties''],
            [Lit ''Plant in well-drained soil with good organic matter''],
            [Lit ''Harvest pods when they are young and tender'']],
        resources_needed := pushAll (resources_needed a)
           [\<lparr>resource = ''Trellis materials'',
              purpose = ''Support climbing bean varieties'',
              quantity = ''Poles and strings for entire field'',
              cost_estimate = ''25,000-50,000 RWF per hectare'',
              where_to_get = ''Local hardware stores, agricultural suppliers''\<rparr>,
            \<lparr>resource = ''Organic compost'',
              purpose = ''Improve soil fertility and structure'',
              quantity = ''5-10 tons per hectare'',
              cost_estimate = ''20,000-40,000 RWF per ton'',
              where_to_get = ''Local farms, agricultural cooperatives''\<rparr>],
        possible_diseases := pushAll (possible_diseases a)
           [\<lparr>disease_name = ''Bean Anthracnose'',
              symptoms = ''Dark, sunken lesions on pods and stems'',
              risk_factors = ''Wet weather, poor air circulation, infected seeds'',
              prevention = ''Use disease-free seeds, crop rotation, proper spacing'',
              treatment = ''Remove infected plants, apply copper-based fungicides'',
              seasonal_risk = (if seasonName = ''longRains'' then ''High'' else ''Medium'')\<rparr>,
            \<lparr>disease_name = ''Bean Rust'',
              symptoms = ''Orange-brown pustules on leaves, defoliation'',
              risk_factors = ''High humidity, dense planting, poor drainage'',
              prevention = ''Plant resistant varieties, maintain field hygiene'',
              treatment = ''Apply fungicides, remove infected debris'',
              seasonal_risk = (if seasonName = ''longRains'' then ''High'' else ''Low'')\<rparr>]\<rparr>
      else if toLowerCase cropType = ''potatoes'' then
        a\<lparr>productivity_tips := pushAll (productivity_tips a)
           [[Lit ''Plant in loose, well-drained soil''],
            [Lit ''Hill soil around plants as they grow''],
            [Lit ''Control potato beetles and other pests'']],
        resources_needed := pushAll (resources_needed a)
           [\<lparr>resource = ''Potato hilling tools'',
              purpose = ''Build soil mounds around potato plants'',
              quantity = ''1 set per farmer'',
              cost_estimate = ''8,000-15,000 RWF'',
              where_to_get = ''Agricultural tool stores''\<rparr>,
            \<lparr>resource = ''Insecticides'',
              purpose = ''Control potato beetles and other pests'',
              quantity = ''2-3 applications per season'',
              cost_estimate = ''12,000-20,000 RWF per application'',
              where_to_get = ''Agricultural chemical suppliers''\<rparr>],
        possible_diseases := pushAll (possible_diseases a)
           [\<lparr>disease_name = ''Late Blight'',
              symptoms = ''Dark lesions on leaves and stems, rapid plant death'',
              risk_factors = ''Cool, wet weather, poor air circulation'',
              prevention = ''Plant resistant varieties, proper spacing, avoid overhead irrigation'',
              treatment = ''Apply copper-based fungicides, remove infected plants'',
              seasonal_risk = (if seasonName = ''longRains'' then ''High'' else ''Low'')\<rparr>,
            \<lparr>disease_name = ''Early Blight'',
              symptoms = ''Brown spots with concentric rings on leaves'',
              risk_factors = ''Warm, humid weather, poor nutrition'',
              prevention = ''Maintain plant health, proper fertilization, crop rotation'',
              treatment = ''Apply fungicides, remove infected leaves'',
              seasonal_risk = (if seasonName = ''longRains'' then ''Medium'' else ''Low'')\<rparr>]\<rparr>
      else if toLowerCase cropType = ''bananas'' then
        a\<lparr>productivity_tips := pushAll (productivity_tips a)
           [[Lit ''Provide regular watering and fertilization''],
            [Lit ''Remove suckers to maintain single stem''],
            [Lit ''Support heavy bunches with props'']],
        resources_needed := pushAll (resources_needed a)
           [\<lparr>resource = ''Banana props'',
              purpose = ''Support heavy fruit bunches'',
              quantity = ''1 prop per bearing plant'',
              cost_estimate = ''2,000-5,000 RWF each'',
              where_to_get = ''Local craftsmen, agricultural suppliers''\<rparr>,
            \<lparr>resource = ''Potassium fertilizer'',
              purpose = ''Essential for banana fruit development'',
              quantity = ''300-500 kg per hectare'',
              cost_estimate = ''90,000-150,000 RWF per hectare'',
              where_to_get = ''Agricultural cooperatives, fertilizer suppliers''\<rparr>],
        possible_diseases := pushAll (possible_diseases a)
           [\<lparr>disease_name = ''Panama Disease (Fusarium Wilt)'',
              symptoms = ''Yellowing leaves, wilting, plant death'',
              risk_factors = ''Infected soil, poor drainage, monoculture'',
              prevention = ''Use disease-free planting material, crop rotation, good drainage'',
              treatment = ''Remove infected plants, soil fumigation if severe'',
              seasonal_risk = (if seasonName = ''longRains'' then ''High'' else ''Medium'')\<rparr>,
            \<lparr>disease_name = ''Black Sigatoka'',
              symptoms = ''Dark streaks on leaves, reduced fruit quality'',
              risk_factors = ''High humidity, poor air circulation, dense planting'',
              prevention = ''Maintain proper spacing, remove infected leaves, fungicide application'',
              treatment = ''Apply systemic fungicides, remove infected leaves'',
              seasonal_risk = (if seasonName = ''longRains'' then ''High'' else ''Medium'')\<rparr>]\<rparr>
      else a)"

text \<open>The summary's own warnings, appended when the summary has the field.\<close>

definition forecastWarningsBlock :: "forecastSummary \<Rightarrow> advice \<Rightarrow> advice" where
  "forecastWarningsBlock forecastSummary a =
     (case warnings forecastSummary of
        None \<Rightarrow> a
      | Some ws \<Rightarrow> a\<lparr>warnings' := pushAll (warnings' a) ws\<rparr>)"

text \<open>The optional parameters of a request; a parameter that is absent is \<open>None\<close>.\<close>

record additionalData =
  soilPh :: "rat option"
  growthState :: "string option"
  variety :: "string option"

text \<open>A request without any optional parameter.\<close>

definition noAdditionalData :: additionalData where
  "noAdditionalData = \<lparr>soilPh = None, growthState = None, variety = None\<rparr>"

definition generateBasicSeasonalAdvice ::
  "string \<Rightarrow> string \<Rightarrow> forecastSummary \<Rightarrow> additionalData \<Rightarrow> error + advice" where
  "generateBasicSeasonalAdvice cropType seasonName forecastSummary additionalData =
     (case getCropInfo cropType of
        Inl e \<Rightarrow> Inl e
      | Inr cropEntry \<Rightarrow>
         (case soilPhBlock cropType (soilPh additionalData)
                 (initialAdvice cropType seasonName forecastSummary) of
            Inl e \<Rightarrow> Inl e
          | Inr a1 \<Rightarrow>
             (case growthStateBlock (growthState additionalData) a1 of
                Inl e \<Rightarrow> Inl e
              | Inr a2 \<Rightarrow>
                 Inr (forecastWarningsBlock forecastSummary
                       (cropBlock cropType seasonName
                         (windBlock forecastSummary
                           (heavyRainBlock forecastSummary
                             (zeroRainfallBlock forecastSummary
                               (seasonBlock seasonName
                                 (varietyBlock cropEntry (variety additionalData)
                                    forecastSummary a2))))))))))"

section \<open>The external advice generator (geminiService.js)\<close>

text \<open>
  \<open>advice[field]\<close> for the six field names the parser asks for: the entry of an object,
  and \<open>undefined\<close> (here \<open>None\<close>) on an object without the key and on an array, string,
  number or boolean. On \<open>null\<close> the read throws; the parser below treats that case first.
\<close>

definition getField :: "json \<Rightarrow> string \<Rightarrow> json option" where
  "getField v field = (case v of JObject kvs \<Rightarrow> map_of kvs field | _ \<Rightarrow> None)"

definition truthyField :: "json \<Rightarrow> string \<Rightarrow> bool" where
  "truthyField v field = (case getField v field of None \<Rightarrow> False | Some x \<Rightarrow> truthy x)"

definition requiredFields :: "string list" where
  "requiredFields =
     [''forecast_summary'', ''season'', ''crop'', ''actions'', ''warnings'',
      ''productivity_tips'']"

definition ensureArray :: "string \<Rightarrow> (string \<times> json) list \<Rightarrow> (string \<times> json) list" where
  "ensureArray k obj =
     (case map_of obj k of
        Some (JArray xs) \<Rightarrow> obj
      | _ \<Rightarrow> AList.update k (JArray []) obj)"

record aiMetadata =
  ai_generated_at :: string
  ai_source :: string
  ai_weather_data :: forecastSummary
  ai_additional_data :: additionalData
  ai_prompt_version :: string

text \<open>
  The advice parsed from the generator's text: the fields of the parsed object, and the
  \<open>metadata\<close> the parser assigns (replacing any \<open>metadata\<close> of the parsed object).
\<close>

record aiAdvice =
  ai_fields :: "(string \<times> json) list"
  ai_metadata :: aiMetadata

text \<open>
  \<open>JSON.parse\<close> belongs to the runtime, not to the program: it is the parameter
  \<open>JSON_parse\<close>, \<open>None\<close> where it throws a \<open>SyntaxError\<close>. The clock value \<open>now\<close> is
  \<open>new Date().toISOString()\<close>. The body of the \<open>try\<close> comes first, the handler after it.
\<close>

definition parseAIResponse_try ::
  "(string \<Rightarrow> json option) \<Rightarrow> string \<Rightarrow> string \<Rightarrow> forecastSummary \<Rightarrow> additionalData
     \<Rightarrow> error + aiAdvice" where
  "parseAIResponse_try JSON_parse now aiResponse forecastSummary additionalData =
     (let jsonStart = indexOf aiResponse (CHR ''{'');
          jsonEnd = lastIndexOf aiResponse (CHR ''}'')
      in if jsonStart = -1 \<or> jsonEnd = -1 then Inl NoJsonFound
         else
          (let jsonString = substring aiResponse jsonStart (jsonEnd + 1)
           in case JSON_parse jsonString of
                None \<Rightarrow> Inl SyntaxError
              | Some JNull \<Rightarrow> Inl TypeError
              | Some parsed \<Rightarrow>
                 (let missingFields =
                        filter (\<lambda>field. \<not> truthyField parsed field) requiredFields
                  in if length missingFields > 0 then Inl (MissingFields missingFields)
                     else case parsed of
                            JObject obj \<Rightarrow>
                              Inr \<lparr>ai_fields =
                                     AList.delete ''metadata''
                                       (ensureArray ''productivity_tips''
                                         (ensureArray ''warnings''
                                           (ensureArray ''actions'' obj))),
                                   ai_metadata =
                                     \<lparr>ai_generated_at = now,
                                      ai_source = ''gemini_ai'',
                                      ai_weather_data = forecastSummary,
                                      ai_additional_data = additionalData,
                                      ai_prompt_version = ''2.0''\<rparr>\<rparr>
                          | _ \<Rightarrow> Inl TypeError)))"

definition parseAIResponse ::
  "(string \<Rightarrow> json option) \<Rightarrow> string \<Rightarrow> string \<Rightarrow> forecastSummary \<Rightarrow> string \<Rightarrow> string
     \<Rightarrow> additionalData \<Rightarrow> error + aiAdvice" where
  "parseAIResponse JSON_parse now aiResponse forecastSummary seasonName cropType additionalData =
     (case parseAIResponse_try JSON_parse now aiResponse forecastSummary additionalData of
        Inl parseError \<Rightarrow> Inl (FailedToParse parseError)
      | Inr a \<Rightarrow> Inr a)"

definition gemini_isAvailable :: "config \<Rightarrow> bool" where
  "gemini_isAvailable c = truthyString (geminiApiKey c)"

definition gemini_generateAdvice ::
  "(string \<Rightarrow> json option) \<Rightarrow> string \<Rightarrow> config \<Rightarrow> string option httpOutcome
     \<Rightarrow> forecastSummary \<Rightarrow> string \<Rightarrow> string \<Rightarrow> additionalData \<Rightarrow> error + aiAdvice" where
  "gemini_generateAdvice JSON_parse now c outcome forecastSummary seasonName cropType
       additionalData =
     (if \<not> truthyString (geminiApiKey c) then Inl GeminiKeyNotConfigured
      else case outcome of
             Responded aiResponse \<Rightarrow>
               (if \<not> truthyString aiResponse
                then Inl (GeminiServiceError GeminiInvalidResponseFormat)
                else case parseAIResponse JSON_parse now (the aiResponse) forecastSummary
                            seasonName cropType additionalData of
                       Inl e \<Rightarrow> Inl (GeminiServiceError e)
                     | Inr a \<Rightarrow> Inr a)
           | StatusError n \<Rightarrow> Inl (GeminiApiError n)
           | Aborted \<Rightarrow> Inl GeminiTimeout
           | _ \<Rightarrow> Inl (GeminiServiceError NetworkError))"

section \<open>The forecast provider (weatherService.js)\<close>

definition weather_isAvailable :: "config \<Rightarrow> bool" where
  "weather_isAvailable c = truthyString (openWeatherApiKey c)"

definition weather_getForecast ::
  "config \<Rightarrow> forecastData option httpOutcome \<Rightarrow> error + forecastData option" where
  "weather_getForecast c outcome =
     (if \<not> truthyString (openWeatherApiKey c) then Inl WeatherKeyNotConfigured
      else case outcome of
             Responded d \<Rightarrow> Inr d
           | StatusError n \<Rightarrow> Inl (WeatherApiError n)
           | Aborted \<Rightarrow> Inl WeatherTimeout
           | HostNotFound \<Rightarrow> Inl WeatherUnreachable
           | OtherFailure \<Rightarrow> Inl WeatherServiceError)"

section \<open>The orchestrator (adviceService.js)\<close>

record options =
  opt_lat :: "rat option"
  opt_lon :: "rat option"
  opt_crop :: "string option"
  opt_soilPh :: "rat option"
  opt_growthState :: "string option"
  opt_variety :: "string option"
  opt_useAI :: "bool option"

text \<open>
  \<open>AdviceService.validateAndSetCoordinates\<close>. An argument that was not supplied is
  \<open>None\<close>. The guard \<open>if (lat && lon)\<close> tests truthiness: a number passes when it is
  supplied and not zero.
\<close>

definition validateAndSetCoordinates ::
  "config \<Rightarrow> rat option \<Rightarrow> rat option \<Rightarrow> error + rat \<times> rat" where
  "validateAndSetCoordinates cfg lat lon =
     (if truthyNumber lat \<and> truthyNumber lon
      then (if \<not> validateCoordinates (the lat) (the lon)
            then Inl InvalidCoordinates
            else Inr (the lat, the lon))
      else Inr (getDefaultCoordinates cfg))"

definition validateAdditionalData :: "options \<Rightarrow> error + additionalData" where
  "validateAdditionalData opts =
     (if (case opt_soilPh opts of None \<Rightarrow> False | Some ph \<Rightarrow> ph < 4.0 \<or> ph > 8.5)
      then Inl InvalidSoilPh
      else if truthyString (opt_growthState opts)
              \<and> toLowerCase (the (opt_growthState opts)) \<notin> set allGrowthStates
      then Inl InvalidGrowthStateOption
      else if truthyString (opt_variety opts) \<and> trim (the (opt_variety opts)) = []
      then Inl InvalidVariety
      else Inr \<lparr>soilPh = opt_soilPh opts,
                growthState = (if truthyString (opt_growthState opts)
                               then Some (toLowerCase (the (opt_growthState opts)))
                               else None),
                variety = (if truthyString (opt_variety opts)
                           then Some (trim (the (opt_variety opts)))
                           else None)\<rparr>)"

text \<open>
  Everything outside the program that one request reads: the configuration, the clock,
  what the two HTTP calls come to, and the runtime's \<open>JSON.parse\<close>.
\<close>

record world =
  cfg :: config
  month :: nat
  now :: string
  forecastOutcome :: "forecastData option httpOutcome"
  geminiOutcome :: "string option httpOutcome"
  jsonParse :: "string \<Rightarrow> json option"

text \<open>The summary substituted when the forecast cannot be had.\<close>

definition neutralSummary :: "rat \<Rightarrow> rat \<Rightarrow> forecastSummary" where
  "neutralSummary la lo =
     \<lparr>totalRainfall = 0, maxTemperature = Finite 25, minTemperature = Finite 15,
      maxWindSpeed = 10, rainHours = 0, heavyRainHours = 0, windHours = 0,
      conditions = [''unknown''], forecastPeriod = ''48 hours'',
      location = \<lparr>loc_lat = la, loc_lon = lo, loc_name = ''Unknown''\<rparr>,
      warnings = None\<rparr>"

text \<open>
  The inner \<open>try\<close> around the forecast: the summary and \<open>weatherWarnings\<close> after it.
  \<open>weatherWarnings\<close> starts as \<open>[]\<close> and is assigned by the last statement of the
  \<open>try\<close> only.
\<close>

definition fetchForecast :: "world \<Rightarrow> rat \<Rightarrow> rat \<Rightarrow> forecastSummary \<times> str list" where
  "fetchForecast w la lo =
     (case weather_getForecast (cfg w) (forecastOutcome w) of
        Inl weatherError \<Rightarrow> (neutralSummary la lo, [])
      | Inr forecastData \<Rightarrow>
         (case summarizeForecast forecastData of
            Inl weatherError \<Rightarrow> (neutralSummary la lo, [])
          | Inr forecastSummary \<Rightarrow> (forecastSummary, generateWeatherWarnings forecastSummary)))"

datatype adviceBody = Basic advice | FromAI "(string \<times> json) list"

record adviceMetadata =
  generated_at :: string
  meta_location :: "rat \<times> rat"
  season_info :: seasonInfo
  weather_service_available :: bool
  ai_service_available :: bool
  advice_source :: string
  additional_data :: additionalData
  api_version :: string
  source :: "string option"
  weather_data :: "forecastSummary option"
  prompt_version :: "string option"

record finalAdvice =
  body :: adviceBody
  metadata :: adviceMetadata

text \<open>\<open>advice.warnings = [...weatherWarnings, ...advice.warnings]\<close> on the parsed advice.\<close>

definition elements :: "json option \<Rightarrow> json list" where
  "elements v = (case v of Some (JArray xs) \<Rightarrow> xs | _ \<Rightarrow> [])"

definition prependWarnings :: "str list \<Rightarrow> (string \<times> json) list \<Rightarrow> (string \<times> json) list" where
  "prependWarnings weatherWarnings obj =
     (if length weatherWarnings > 0
      then AList.update ''warnings''
             (JArray (map JString weatherWarnings @ elements (map_of obj ''warnings''))) obj
      else obj)"

text \<open>
  The advice and the metadata it already carries (the parser's, for a parsed advice;
  none for the rule-based one), by the generator or by the rule-based advisor.
\<close>

definition chooseAdvice ::
  "world \<Rightarrow> bool \<Rightarrow> forecastSummary \<Rightarrow> str list \<Rightarrow> string \<Rightarrow> string \<Rightarrow> additionalData
     \<Rightarrow> error + adviceBody \<times> aiMetadata option" where
  "chooseAdvice w useAI forecastSummary weatherWarnings seasonName cropType additionalData =
     (let basic =
            (case generateBasicSeasonalAdvice cropType seasonName forecastSummary
                    additionalData of
               Inl e \<Rightarrow> Inl e
             | Inr a \<Rightarrow> Inr (Basic a, None))
      in if useAI then
           (case gemini_generateAdvice (jsonParse w) (now w) (cfg w) (geminiOutcome w)
                   forecastSummary seasonName cropType additionalData of
              Inr a \<Rightarrow>
                Inr (FromAI (prependWarnings weatherWarnings (ai_fields a)),
                     Some (ai_metadata a))
            | Inl aiError \<Rightarrow> basic)
         else basic)"

definition generateAdvice_try :: "world \<Rightarrow> options \<Rightarrow> error + finalAdvice" where
  "generateAdvice_try w opts =
     (case validateAndSetCoordinates (cfg w) (opt_lat opts) (opt_lon opts) of
        Inl e \<Rightarrow> Inl e
      | Inr (la, lo) \<Rightarrow>
         (if \<not> truthyString (opt_crop opts) then Inl CropRequired
          else
           (let cropType = toLowerCase (the (opt_crop opts))
            in if \<not> validateCropType cropType then Inl (UnsupportedCrop cropType)
               else
                (case validateAdditionalData opts of
                   Inl e \<Rightarrow> Inl e
                 | Inr additionalData \<Rightarrow>
                    (let seasonInfo = detectCurrentSeason (month w);
                         (forecastSummary0, weatherWarnings) = fetchForecast w la lo;
                         forecastSummary = forecastSummary0\<lparr>warnings := Some weatherWarnings\<rparr>;
                         useAI = (opt_useAI opts \<noteq> Some False \<and> gemini_isAvailable (cfg w))
                     in case chooseAdvice w useAI forecastSummary weatherWarnings
                               (si_season seasonInfo) cropType additionalData of
                          Inl e \<Rightarrow> Inl e
                        | Inr (b, m) \<Rightarrow>
                           Inr \<lparr>body = b,
                                metadata =
                                  \<lparr>generated_at = now w,
                                   meta_location = (la, lo),
                                   season_info = seasonInfo,
                                   weather_service_available = weather_isAvailable (cfg w),
                                   ai_service_available = gemini_isAvailable (cfg w),
                                   advice_source =
                                     (if useAI then ''gemini_ai'' else ''basic_seasonal''),
                                   additional_data = additionalData,
                                   api_version = ''1.0.0'',
                                   source = map_option ai_source m,
                                   weather_data = map_option ai_weather_data m,
                                   prompt_version = map_option ai_prompt_version m\<rparr>\<rparr>)))))"

definition generateAdvice :: "world \<Rightarrow> options \<Rightarrow> error + finalAdvice" where
  "generateAdvice w opts =
     (case generateAdvice_try w opts of
        Inl e \<Rightarrow> Inl (FailedToGenerateAdvice e)
      | Inr r \<Rightarrow> Inr r)"

section \<open>Notions the properties are stated with\<close>

subsection \<open>Reading a warning back\<close>

text \<open>
  The five checks of the warning generator, in the order of the source. A warning is
  recognised by the literal text its template starts with; the two wind messages belong
  to the same check.
\<close>

datatype warningCheck = TemperatureHigh | TemperatureLow | Wind | HeavyRain | NoRain

definition warningCheckOf :: "str \<Rightarrow> warningCheck option" where
  "warningCheckOf w =
     (case w of
        Lit s # _ \<Rightarrow>
          (if s = ''High temperature warning: '' then Some TemperatureHigh
           else if s = ''Low temperature warning: '' then Some TemperatureLow
           else if s = ''Dangerous wind conditions: '' then Some Wind
           else if s = ''Wind warning: '' then Some Wind
           else if s = ''Heavy rainfall expected: '' then Some HeavyRain
           else if [Lit s] = noRainWarning then Some NoRain
           else None)
      | _ \<Rightarrow> None)"

fun checkRank :: "warningCheck option \<Rightarrow> nat" where
  "checkRank (Some TemperatureHigh) = 1"
| "checkRank (Some TemperatureLow) = 2"
| "checkRank (Some Wind) = 3"
| "checkRank (Some HeavyRain) = 4"
| "checkRank (Some NoRain) = 5"
| "checkRank None = 0"

definition emissionOrder :: "str list \<Rightarrow> bool" where
  "emissionOrder ws = sorted_wrt (<) (map (checkRank \<circ> warningCheckOf) ws)"

definition isHighTemperatureWarning :: "str \<Rightarrow> bool" where
  "isHighTemperatureWarning w = (warningCheckOf w = Some TemperatureHigh)"

subsection \<open>Precipitation of a series, bands of the pH table, names\<close>


text \<open>The two ends of each band, as the \<open>range\<close> text of the table gives them.\<close>

fun bandLow :: "soilPhCategory \<Rightarrow> rat" where
  "bandLow very_acidic = 4.0"
| "bandLow acidic = 5.1"
| "bandLow slightly_acidic = 6.1"
| "bandLow neutral = 6.6"
| "bandLow slightly_alkaline = 7.4"
| "bandLow alkaline = 7.9"

fun bandHigh :: "soilPhCategory \<Rightarrow> rat" where
  "bandHigh very_acidic = 5.0"
| "bandHigh acidic = 6.0"
| "bandHigh slightly_acidic = 6.5"
| "bandHigh neutral = 7.3"
| "bandHigh slightly_alkaline = 7.8"
| "bandHigh alkaline = 8.5"

definition inBand :: "soilPhCategory \<Rightarrow> rat \<Rightarrow> bool" where
  "inBand c ph = (bandLow c \<le> ph \<and> ph \<le> bandHigh c)"

text \<open>A pH value written with at most one decimal digit.\<close>

definition oneDecimal :: "rat \<Rightarrow> bool" where
  "oneDecimal ph = (of_int (floor (ph * 10)) = ph * 10)"

definition seasonNames :: "string list" where
  "seasonNames = [''shortDry'', ''longRains'', ''longDry'', ''shortRains'']"

definition cropNames :: "string list" where
  "cropNames = [''maize'', ''beans'', ''potatoes'', ''bananas'']"

subsection \<open>Conditions on a request\<close>

text \<open>
  The request passes the checks that come before the forecast is asked for: coordinates,
  crop and optional parameters.
\<close>

definition passesValidation :: "world \<Rightarrow> options \<Rightarrow> bool" where
  "passesValidation w opts =
     (\<not> isl (validateAndSetCoordinates (cfg w) (opt_lat opts) (opt_lon opts))
      \<and> truthyString (opt_crop opts)
      \<and> validateCropType (toLowerCase (the (opt_crop opts)))
      \<and> \<not> isl (validateAdditionalData opts))"

text \<open>The forecast cannot be had: the provider call fails, or the summarizer does.\<close>

definition forecastFails :: "world \<Rightarrow> bool" where
  "forecastFails w =
     (case weather_getForecast (cfg w) (forecastOutcome w) of
        Inl e \<Rightarrow> True
      | Inr d \<Rightarrow> isl (summarizeForecast d))"

text \<open>
  The generator is asked, and the call or the parsing of its answer fails. Whether it
  fails does not depend on the summary, season, crop and parameters passed along, so
  fixed ones stand in for them.
\<close>

definition generatorFails :: "world \<Rightarrow> options \<Rightarrow> bool" where
  "generatorFails w opts =
     (opt_useAI opts \<noteq> Some False \<and> gemini_isAvailable (cfg w)
      \<and> isl (gemini_generateAdvice (jsonParse w) (now w) (cfg w) (geminiOutcome w)
                (neutralSummary 0 0) [] [] noAdditionalData))"

text \<open>The advice has a forecast narrative that is not empty.\<close>

definition narrativePopulated :: "adviceBody \<Rightarrow> bool" where
  "narrativePopulated b =
     (case b of
        Basic a \<Rightarrow> \<not> printsEmpty (forecast_summary a)
      | FromAI kvs \<Rightarrow> truthyField (JObject kvs) ''forecast_summary'')"

definition isBasic :: "adviceBody \<Rightarrow> bool" where
  "isBasic b = (case b of Basic a \<Rightarrow> True | FromAI kvs \<Rightarrow> False)"

subsection \<open>Sample inputs\<close>

text \<open>A summary with a maximum temperature of 36 degrees and no rain at all.\<close>

definition hotDrySummary :: forecastSummary where
  "hotDrySummary =
     \<lparr>totalRainfall = 0, maxTemperature = Finite 36, minTemperature = Finite 18,
      maxWindSpeed = 12, rainHours = 0, heavyRainHours = 0, windHours = 0,
      conditions = [''high_temperature''], forecastPeriod = ''48 hours'',
      location = \<lparr>loc_lat = -1.9441, loc_lon = 30.0619, loc_name = ''Kigali''\<rparr>,
      warnings = None\<rparr>"

definition kigali :: city where
  "kigali = \<lparr>coord = \<lparr>loc_lat = -1.9441, loc_lon = 30.0619, loc_name = ''Kigali''\<rparr>\<rparr>"

definition pointWithRain :: "rat \<Rightarrow> forecastPoint" where
  "pointWithRain r = \<lparr>main_temp = 293.15, rain_3h = Some r, wind_speed = Some 2\<rparr>"


definition rainyPayload :: forecastData where
  "rainyPayload =
     \<lparr>fd_list = Some (map pointWithRain [0, 20, 0, 0]), fd_city = Some kigali\<rparr>"

definition noEnv :: env where
  "noEnv = \<lparr>GEMINI_API_KEY = None, OPENWEATHER_API_KEY = None,
            DEFAULT_LAT = None, DEFAULT_LON = None\<rparr>"

definition keysEnv :: env where
  "keysEnv = \<lparr>GEMINI_API_KEY = Some ''gemini-key'', OPENWEATHER_API_KEY = Some ''weather-key'',
              DEFAULT_LAT = None, DEFAULT_LON = None\<rparr>"

definition maizeRequest :: options where
  "maizeRequest =
     \<lparr>opt_lat = None, opt_lon = None, opt_crop = Some ''maize'', opt_soilPh = None,
      opt_growthState = None, opt_variety = None, opt_useAI = None\<rparr>"


definition sampleSpan :: string where
  "sampleSpan =
     ''{\"forecast_summary\":\"x\",\"season\":\"longDry\",\"crop\":\"maize\",\"actions\":[],\"warnings\":[],\"productivity_tips\":[]}''"

definition sampleObject :: "(string \<times> json) list" where
  "sampleObject =
     [(''forecast_summary'', JString [Lit ''x'']), (''season'', JString [Lit ''longDry'']),
      (''crop'', JString [Lit ''maize'']), (''actions'', JArray []), (''warnings'', JArray []),
      (''productivity_tips'', JArray [])]"

text \<open>A stand-in for \<open>JSON.parse\<close> that knows the sample object and nothing else.\<close>

definition sampleParse :: "string \<Rightarrow> json option" where
  "sampleParse t = (if t = sampleSpan then Some (JObject sampleObject) else None)"

text \<open>
  Two worlds with both keys configured, in July, where the generator answers with a text
  that holds no JSON. In the first the forecast arrives, in the second the forecast call
  times out.
\<close>

definition unparsableWorld :: world where
  "unparsableWorld =
     \<lparr>cfg = loadConfig keysEnv, month = 7, now = ''2025-07-01T00:00:00.000Z'',
      forecastOutcome = Responded (Some rainyPayload),
      geminiOutcome = Responded (Some ''Sorry, I cannot help with that.''),
      jsonParse = sampleParse\<rparr>"

definition failingWorld :: world where
  "failingWorld =
     \<lparr>cfg = loadConfig keysEnv, month = 7, now = ''2025-07-01T00:00:00.000Z'',
      forecastOutcome = Aborted,
      geminiOutcome = Responded (Some ''Sorry, I cannot help with that.''),
      jsonParse = sampleParse\<rparr>"

text \<open>A world without any API key: no call is made at all.\<close>

definition offlineWorld :: world where
  "offlineWorld =
     \<lparr>cfg = loadConfig noEnv, month = 11, now = ''2025-11-01T00:00:00.000Z'',
      forecastOutcome = OtherFailure, geminiOutcome = OtherFailure,
      jsonParse = sampleParse\<rparr>"

section \<open>Properties of the warning generator\<close>

lemma warningCheckOf_simps:
  "warningCheckOf (highTemperatureWarning t) = Some TemperatureHigh"
  "warningCheckOf (lowTemperatureWarning t) = Some TemperatureLow"
  "warningCheckOf (dangerousWindWarning w) = Some Wind"
  "warningCheckOf (windWarning w) = Some Wind"
  "warningCheckOf (heavyRainWarning n) = Some HeavyRain"
  "warningCheckOf noRainWarning = Some NoRain"
  by (simp_all add: warningCheckOf_def highTemperatureWarning_def lowTemperatureWarning_def
      dangerousWindWarning_def windWarning_def heavyRainWarning_def noRainWarning_def)

lemma warning_distinct_lr:
  "dangerousWindWarning w \<noteq> windWarning w'"
  "dangerousWindWarning w \<noteq> highTemperatureWarning t"
  "dangerousWindWarning w \<noteq> lowTemperatureWarning t"
  "dangerousWindWarning w \<noteq> heavyRainWarning n"
  "dangerousWindWarning w \<noteq> noRainWarning"
  "windWarning w \<noteq> highTemperatureWarning t"
  "windWarning w \<noteq> lowTemperatureWarning t"
  "windWarning w \<noteq> heavyRainWarning n"
  "windWarning w \<noteq> noRainWarning"
  "noRainWarning \<noteq> highTemperatureWarning t"
  "noRainWarning \<noteq> lowTemperatureWarning t"
  "noRainWarning \<noteq> heavyRainWarning n"
  "highTemperatureWarning t \<noteq> lowTemperatureWarning t'"
  "highTemperatureWarning t \<noteq> heavyRainWarning n"
  by (simp_all add: highTemperatureWarning_def lowTemperatureWarning_def
      dangerousWindWarning_def windWarning_def heavyRainWarning_def noRainWarning_def)

lemmas warning_distinct = warning_distinct_lr warning_distinct_lr [symmetric]

text \<open>The pushes of the generator, read as one concatenation of five optional entries.\<close>

lemma generateWeatherWarnings_chunks:
  "generateWeatherWarnings fs =
     (if num_less (Finite temperature_max) (maxTemperature fs)
      then [highTemperatureWarning (maxTemperature fs)] else [])
   @ (if num_less (minTemperature fs) (Finite temperature_min)
      then [lowTemperatureWarning (minTemperature fs)] else [])
   @ (if maxWindSpeed fs \<ge> windSpeed_danger then [dangerousWindWarning (maxWindSpeed fs)]
      else if maxWindSpeed fs \<ge> windSpeed_warning then [windWarning (maxWindSpeed fs)]
      else [])
   @ (if heavyRainHours fs > 0 then [heavyRainWarning (heavyRainHours fs)] else [])
   @ (if totalRainfall fs = 0 \<and> rainHours fs = 0 then [noRainWarning] else [])"
  by (simp add: generateWeatherWarnings_def push_def Let_def)

lemma warnings_in_order: "emissionOrder (generateWeatherWarnings fs)"
  by (simp add: generateWeatherWarnings_chunks emissionOrder_def warningCheckOf_simps)

lemma danger_wind_iff:
  "dangerousWindWarning (maxWindSpeed fs) \<in> set (generateWeatherWarnings fs)
     \<longleftrightarrow> maxWindSpeed fs \<ge> windSpeed_danger"
  by (simp add: generateWeatherWarnings_chunks warning_distinct)

lemma warning_wind_iff:
  "windWarning (maxWindSpeed fs) \<in> set (generateWeatherWarnings fs)
     \<longleftrightarrow> windSpeed_warning \<le> maxWindSpeed fs \<and> maxWindSpeed fs < windSpeed_danger"
  by (auto simp add: generateWeatherWarnings_chunks warning_distinct)

lemma at_most_one_wind:
  "length (filter (\<lambda>w. warningCheckOf w = Some Wind) (generateWeatherWarnings fs)) \<le> 1"
  by (simp add: generateWeatherWarnings_chunks warningCheckOf_simps)

lemma no_rain_iff:
  "noRainWarning \<in> set (generateWeatherWarnings fs)
     \<longleftrightarrow> totalRainfall fs = 0 \<and> rainHours fs = 0"
  by (simp add: generateWeatherWarnings_chunks warning_distinct)

lemma one_high_at_36:
  "maxTemperature fs = Finite 36
     \<Longrightarrow> length (filter isHighTemperatureWarning (generateWeatherWarnings fs)) = 1"
  by (simp add: generateWeatherWarnings_chunks warningCheckOf_simps
      isHighTemperatureWarning_def temperature_max_def)

lemma high_and_no_rain:
  "maxTemperature fs = Finite 36 \<Longrightarrow> totalRainfall fs = 0 \<Longrightarrow> rainHours fs = 0
     \<Longrightarrow> highTemperatureWarning (Finite 36) \<in> set (generateWeatherWarnings fs)
       \<and> noRainWarning \<in> set (generateWeatherWarnings fs)
       \<and> highTemperatureWarning (Finite 36) \<noteq> noRainWarning
       \<and> length (filter (\<lambda>w. w = highTemperatureWarning (Finite 36) \<or> w = noRainWarning)
                   (generateWeatherWarnings fs)) = 2"
  by (simp add: generateWeatherWarnings_chunks warning_distinct temperature_max_def)

text \<open>
  C4. The warning generator emits its warnings in the order temperature-high,
  temperature-low, wind, heavy-rain, no-rain, each check contributing at most one entry;
  the danger and the warning wind messages never occur together and the danger message is
  the one emitted at or above the danger threshold; the no-rain advisory is emitted exactly
  when total rainfall and rain hours are both zero, whatever the heavy-rain check did; a
  maximum temperature of 36 against the threshold 35 gives exactly one high-temperature
  warning; and a high-temperature warning and the no-rain advisory occur together as two
  distinct entries when both conditions hold.
\<close>

theorem generateWeatherWarnings_order:
  "emissionOrder (generateWeatherWarnings fs)
   \<and> (dangerousWindWarning (maxWindSpeed fs) \<in> set (generateWeatherWarnings fs)
        \<longleftrightarrow> maxWindSpeed fs \<ge> windSpeed_danger)
   \<and> (windWarning (maxWindSpeed fs) \<in> set (generateWeatherWarnings fs)
        \<longleftrightarrow> windSpeed_warning \<le> maxWindSpeed fs \<and> maxWindSpeed fs < windSpeed_danger)
   \<and> length (filter (\<lambda>w. warningCheckOf w = Some Wind) (generateWeatherWarnings fs)) \<le> 1
   \<and> (noRainWarning \<in> set (generateWeatherWarnings fs)
        \<longleftrightarrow> totalRainfall fs = 0 \<and> rainHours fs = 0)
   \<and> (maxTemperature fs = Finite 36
        \<longrightarrow> length (filter isHighTemperatureWarning (generateWeatherWarnings fs)) = 1)
   \<and> (maxTemperature fs = Finite 36 \<and> totalRainfall fs = 0 \<and> rainHours fs = 0
        \<longrightarrow> highTemperatureWarning (Finite 36) \<in> set (generateWeatherWarnings fs)
          \<and> noRainWarning \<in> set (generateWeatherWarnings fs)
          \<and> highTemperatureWarning (Finite 36) \<noteq> noRainWarning
          \<and> length (filter (\<lambda>w. w = highTemperatureWarning (Finite 36) \<or> w = noRainWarning)
                      (generateWeatherWarnings fs)) = 2)"
  using warnings_in_order [of fs] danger_wind_iff [of fs] warning_wind_iff [of fs]
    at_most_one_wind [of fs] no_rain_iff [of fs] one_high_at_36 [of fs]
    high_and_no_rain [of fs]
  by blast

theorem generateWeatherWarnings_order_witness:
  "maxTemperature hotDrySummary = Finite 36
   \<and> totalRainfall hotDrySummary = 0 \<and> rainHours hotDrySummary = 0
   \<and> emissionOrder (generateWeatherWarnings hotDrySummary)
   \<and> length (filter isHighTemperatureWarning (generateWeatherWarnings hotDrySummary)) = 1
   \<and> highTemperatureWarning (Finite 36) \<in> set (generateWeatherWarnings hotDrySummary)
   \<and> noRainWarning \<in> set (generateWeatherWarnings hotDrySummary)"
proof -
  have h: "maxTemperature hotDrySummary = Finite 36"
    "totalRainfall hotDrySummary = 0" "rainHours hotDrySummary = 0"
    by (simp_all add: hotDrySummary_def)
  from generateWeatherWarnings_order [of hotDrySummary] h show ?thesis
    by blast
qed

section \<open>Properties of the summarizer\<close>













section \<open>Soil pH bands and coordinates\<close>

lemma category_iff: "getSoilPhCategory (Some ph) = Some c \<longleftrightarrow> inBand c ph"
  by (cases c) (auto simp: getSoilPhCategory_def inBand_def)

lemma bands_disjoint: "inBand c ph \<Longrightarrow> inBand c' ph \<Longrightarrow> c = c'"
  by (cases c; cases c') (auto simp: inBand_def)

lemma outside_none: "ph < 4.0 \<or> ph > 8.5 \<Longrightarrow> getSoilPhCategory (Some ph) = None"
  by (auto simp: getSoilPhCategory_def)

lemma one_decimal_gap:
  fixes ph :: rat
  assumes "oneDecimal ph" and "of_int k < ph * 10" and "ph * 10 < of_int (k + 1)"
  shows False
proof -
  from assms(1) have e: "ph * 10 = of_int (floor (ph * 10))"
    unfolding oneDecimal_def by (rule sym)
  from assms(2) e have "of_int k < (of_int (floor (ph * 10)) :: rat)" by simp
  then have a: "k < floor (ph * 10)" by (simp only: of_int_less_iff)
  from assms(3) e have "(of_int (floor (ph * 10)) :: rat) < of_int (k + 1)" by simp
  then have "floor (ph * 10) < k + 1" by (simp only: of_int_less_iff)
  with a show False by linarith
qed

lemma covered:
  assumes "4.0 \<le> ph" "ph \<le> 8.5" "oneDecimal ph"
  shows "getSoilPhCategory (Some ph) \<noteq> None"
proof -
  have g: "\<not> (of_int k < ph * 10 \<and> ph * 10 < of_int (k + 1))" for k
    using one_decimal_gap [OF assms(3)] by blast
  from g [of 50] g [of 60] g [of 65] g [of 73] g [of 78] assms(1,2)
  show ?thesis by (auto simp: getSoilPhCategory_def)
qed

text \<open>
  C7, as the code has it. The lookup returns a category exactly for the values inside
  that category's band; no value lies in two bands; every value below 4.0 or above 8.5 and
  a missing value have no category; and every value from 4.0 to 8.5 written with at most
  one decimal digit has one.
\<close>

theorem getSoilPhCategory_bands:
  "(getSoilPhCategory (Some ph) = Some c \<longleftrightarrow> inBand c ph)
   \<and> (inBand c ph \<and> inBand c' ph \<longrightarrow> c = c')
   \<and> (ph < 4.0 \<or> ph > 8.5 \<longrightarrow> getSoilPhCategory (Some ph) = None)
   \<and> (4.0 \<le> ph \<and> ph \<le> 8.5 \<and> oneDecimal ph \<longrightarrow> getSoilPhCategory (Some ph) \<noteq> None)
   \<and> getSoilPhCategory None = None"
  using category_iff [of ph c] bands_disjoint [of c ph c'] outside_none [of ph] covered [of ph]
  by (simp add: getSoilPhCategory_def)

theorem getSoilPhCategory_bands_witness:
  "inBand slightly_acidic 6.5 \<and> (4.0::rat) \<le> 6.5 \<and> (6.5::rat) \<le> 8.5 \<and> oneDecimal 6.5
   \<and> getSoilPhCategory (Some 6.5) = Some slightly_acidic"
  using getSoilPhCategory_bands [of "6.5" slightly_acidic slightly_acidic]
  by (simp add: inBand_def oneDecimal_def)

text \<open>
  C7 as stated fails: 5.05 lies between 4.0 and 8.5, in the gap between the bands ending
  at 5.0 and starting at 5.1, and has no category.
\<close>

theorem getSoilPhCategory_gap_counterexample:
  "(4.0::rat) \<le> 5.05 \<and> (5.05::rat) \<le> 8.5 \<and> getSoilPhCategory (Some 5.05) = None"
  by (simp add: getSoilPhCategory_def)

text \<open>
  C9 against the code. The coordinates (0, 30.0619) are both supplied and valid, yet the
  default location is returned instead of them: the guard takes a zero for a missing
  value. For the same reason an invalid latitude supplied alone, or next to a zero, is
  replaced by the default without an error.
\<close>

theorem validateAndSetCoordinates_zero_latitude:
  "validateCoordinates 0 30.0619
   \<and> validateAndSetCoordinates (loadConfig noEnv) (Some 0) (Some 30.0619)
       = Inr (-1.9441, 30.0619)
   \<and> \<not> validateCoordinates 95 30.0619
   \<and> validateAndSetCoordinates (loadConfig noEnv) (Some 95) None = Inr (-1.9441, 30.0619)
   \<and> validateAndSetCoordinates (loadConfig noEnv) (Some 0) (Some 200) = Inr (-1.9441, 30.0619)"
  by (simp add: validateAndSetCoordinates_def validateCoordinates_def truthyNumber_def
      getDefaultCoordinates_def loadConfig_def noEnv_def orElse_def)

section \<open>Properties of the rule-based advisor\<close>

lemma pushAll_append: "pushAll xs ys = xs @ ys"
  unfolding pushAll_def by (induction ys arbitrary: xs) (simp_all add: push_def)

lemma toLowerCase_cropNames:
  "toLowerCase ''maize'' = ''maize''" "toLowerCase ''beans'' = ''beans''"
  "toLowerCase ''potatoes'' = ''potatoes''" "toLowerCase ''bananas'' = ''bananas''"
  by code_simp+

lemma getCropInfo_cropNames:
  assumes "cropType \<in> set cropNames"
  shows "\<exists>c. getCropInfo cropType = Inr (Own c)"
  using assms
  by (auto simp: cropNames_def getCropInfo_def toLowerCase_cropNames getProperty_def crops_def)

lemma soilPhBlock_ok:
  assumes "getCropInfo cropType = Inr e"
  shows "\<exists>a'. soilPhBlock cropType ph a = Inr a'
     \<and> season a' = season a \<and> crop a' = crop a
     \<and> growth_stage_advice a' = growth_stage_advice a
     \<and> variety_specific_tips a' = variety_specific_tips a
     \<and> (ph = None \<longrightarrow> soil_ph_analysis a' = soil_ph_analysis a)"
proof (cases ph)
  case None
  then show ?thesis by (simp add: soilPhBlock_def)
next
  case (Some x)
  from assms obtain r where "getCropSoilPh cropType = Inr r"
    by (cases e) (auto simp: getCropSoilPh_def)
  then have "\<exists>su. isSoilPhSuitableForCrop cropType (Some x) = Inr su"
    by (simp add: isSoilPhSuitableForCrop_def Let_def)
  then obtain su where "isSoilPhSuitableForCrop cropType (Some x) = Inr su" by blast
  with Some show ?thesis
    by (auto simp: soilPhBlock_def Let_def split: option.splits)
qed

lemma growthStateBlock_ok:
  assumes "\<not> truthyString g \<or> the g \<in> set allGrowthStates"
  shows "\<exists>a'. growthStateBlock g a = Inr a'
     \<and> season a' = season a \<and> crop a' = crop a
     \<and> soil_ph_analysis a' = soil_ph_analysis a
     \<and> variety_specific_tips a' = variety_specific_tips a
     \<and> (\<not> truthyString g \<longrightarrow> growth_stage_advice a' = growth_stage_advice a)"
proof (cases "truthyString g")
  case False
  then show ?thesis by (simp add: growthStateBlock_def)
next
  case True
  with assms have "the g \<in> set allGrowthStates" by simp
  then obtain i where "getProperty growthStatesTable (the g) = Own i"
    by (auto simp: allGrowthStates_def getProperty_def growthStatesTable_def)
  with True show ?thesis
    by (simp add: growthStateBlock_def getGrowthStateInfo_def)
qed

lemma varietyBlock_fields:
  "season (varietyBlock e v fs a) = season a"
  "crop (varietyBlock e v fs a) = crop a"
  "soil_ph_analysis (varietyBlock e v fs a) = soil_ph_analysis a"
  "growth_stage_advice (varietyBlock e v fs a) = growth_stage_advice a"
  "\<not> truthyString v \<Longrightarrow> variety_specific_tips (varietyBlock e v fs a) = variety_specific_tips a"
  by (simp_all add: varietyBlock_def Let_def split: property.splits)

lemma seasonBlock_fields:
  "season (seasonBlock s a) = season a"
  "crop (seasonBlock s a) = crop a"
  "soil_ph_analysis (seasonBlock s a) = soil_ph_analysis a"
  "growth_stage_advice (seasonBlock s a) = growth_stage_advice a"
  "variety_specific_tips (seasonBlock s a) = variety_specific_tips a"
  by (simp_all add: seasonBlock_def)

lemma seasonBlock_actions:
  "s \<in> set seasonNames \<Longrightarrow> actions (seasonBlock s a) \<noteq> []"
  by (auto simp: seasonBlock_def seasonNames_def pushAll_append)

lemma zeroRainfallBlock_fields:
  "season (zeroRainfallBlock fs a) = season a"
  "crop (zeroRainfallBlock fs a) = crop a"
  "soil_ph_analysis (zeroRainfallBlock fs a) = soil_ph_analysis a"
  "growth_stage_advice (zeroRainfallBlock fs a) = growth_stage_advice a"
  "variety_specific_tips (zeroRainfallBlock fs a) = variety_specific_tips a"
  "actions a \<noteq> [] \<Longrightarrow> actions (zeroRainfallBlock fs a) \<noteq> []"
  by (simp_all add: zeroRainfallBlock_def pushAll_append)

lemma heavyRainBlock_fields:
  "season (heavyRainBlock fs a) = season a"
  "crop (heavyRainBlock fs a) = crop a"
  "soil_ph_analysis (heavyRainBlock fs a) = soil_ph_analysis a"
  "growth_stage_advice (heavyRainBlock fs a) = growth_stage_advice a"
  "variety_specific_tips (heavyRainBlock fs a) = variety_specific_tips a"
  "actions a \<noteq> [] \<Longrightarrow> actions (heavyRainBlock fs a) \<noteq> []"
  by (simp_all add: heavyRainBlock_def pushAll_append)

lemma windBlock_fields:
  "season (windBlock fs a) = season a"
  "crop (windBlock fs a) = crop a"
  "soil_ph_analysis (windBlock fs a) = soil_ph_analysis a"
  "growth_stage_advice (windBlock fs a) = growth_stage_advice a"
  "variety_specific_tips (windBlock fs a) = variety_specific_tips a"
  "actions a \<noteq> [] \<Longrightarrow> actions (windBlock fs a) \<noteq> []"
  by (simp_all add: windBlock_def pushAll_append)

lemma cropBlock_fields:
  "season (cropBlock c s a) = season a"
  "crop (cropBlock c s a) = crop a"
  "soil_ph_analysis (cropBlock c s a) = soil_ph_analysis a"
  "growth_stage_advice (cropBlock c s a) = growth_stage_advice a"
  "variety_specific_tips (cropBlock c s a) = variety_specific_tips a"
  "actions (cropBlock c s a) = actions a"
  by (simp_all add: cropBlock_def)

lemma forecastWarningsBlock_fields:
  "season (forecastWarningsBlock fs a) = season a"
  "crop (forecastWarningsBlock fs a) = crop a"
  "soil_ph_analysis (forecastWarningsBlock fs a) = soil_ph_analysis a"
  "growth_stage_advice (forecastWarningsBlock fs a) = growth_stage_advice a"
  "variety_specific_tips (forecastWarningsBlock fs a) = variety_specific_tips a"
  "actions (forecastWarningsBlock fs a) = actions a"
  by (simp_all add: forecastWarningsBlock_def split: option.splits)

lemmas block_fields = varietyBlock_fields seasonBlock_fields zeroRainfallBlock_fields
  heavyRainBlock_fields windBlock_fields cropBlock_fields forecastWarningsBlock_fields

text \<open>
  C3. For each of the four crops and each of the four seasons, any forecast summary and any
  optional parameters whose growth stage, when given, is one of the four stages, the
  rule-based advisor returns an advice: its actions are not empty, its season and crop are
  the inputs, and each of the three narrative fields is the empty string when its
  parameter is absent. The five list fields are lists by their type.
\<close>

theorem generateBasicSeasonalAdvice_shape:
  assumes "cropType \<in> set cropNames" and "seasonName \<in> set seasonNames"
    and "\<not> truthyString (growthState ad) \<or> the (growthState ad) \<in> set allGrowthStates"
  shows "\<exists>a. generateBasicSeasonalAdvice cropType seasonName fs ad = Inr a
      \<and> actions a \<noteq> [] \<and> season a = seasonName \<and> crop a = cropType
      \<and> (soilPh ad = None \<longrightarrow> soil_ph_analysis a = emptyString)
      \<and> (\<not> truthyString (growthState ad) \<longrightarrow> growth_stage_advice a = emptyString)
      \<and> (\<not> truthyString (variety ad) \<longrightarrow> variety_specific_tips a = emptyString)"
proof -
  from getCropInfo_cropNames [OF assms(1)] obtain c where c: "getCropInfo cropType = Inr (Own c)"
    by blast
  let ?a0 = "initialAdvice cropType seasonName fs"
  from soilPhBlock_ok [OF c, of "soilPh ad" ?a0] obtain a1 where a1:
    "soilPhBlock cropType (soilPh ad) ?a0 = Inr a1"
    "season a1 = seasonName" "crop a1 = cropType"
    "growth_stage_advice a1 = emptyString" "variety_specific_tips a1 = emptyString"
    "soilPh ad = None \<longrightarrow> soil_ph_analysis a1 = emptyString"
    by (auto simp: initialAdvice_def)
  from growthStateBlock_ok [OF assms(3), of a1] obtain a2 where a2:
    "growthStateBlock (growthState ad) a1 = Inr a2"
    "season a2 = seasonName" "crop a2 = cropType"
    "soil_ph_analysis a2 = soil_ph_analysis a1" "variety_specific_tips a2 = emptyString"
    "\<not> truthyString (growthState ad) \<longrightarrow> growth_stage_advice a2 = emptyString"
    using a1 by auto
  let ?a3 = "seasonBlock seasonName (varietyBlock (Own c) (variety ad) fs a2)"
  have act: "actions ?a3 \<noteq> []" by (rule seasonBlock_actions [OF assms(2)])
  have r: "generateBasicSeasonalAdvice cropType seasonName fs ad
    = Inr (forecastWarningsBlock fs (cropBlock cropType seasonName
        (windBlock fs (heavyRainBlock fs (zeroRainfallBlock fs ?a3)))))"
    by (simp add: generateBasicSeasonalAdvice_def c a1(1) a2(1))
  show ?thesis
    unfolding r using act a1 a2 by (simp add: block_fields)
qed

theorem generateBasicSeasonalAdvice_shape_witness:
  "''maize'' \<in> set cropNames \<and> ''longDry'' \<in> set seasonNames
   \<and> \<not> truthyString (growthState noAdditionalData)
   \<and> (\<exists>a. generateBasicSeasonalAdvice ''maize'' ''longDry'' hotDrySummary noAdditionalData
            = Inr a
          \<and> actions a \<noteq> [] \<and> season a = ''longDry'' \<and> crop a = ''maize''
          \<and> soil_ph_analysis a = emptyString \<and> growth_stage_advice a = emptyString
          \<and> variety_specific_tips a = emptyString)"
proof -
  have h: "''maize'' \<in> set cropNames" "''longDry'' \<in> set seasonNames"
    "\<not> truthyString (growthState noAdditionalData)
       \<or> the (growthState noAdditionalData) \<in> set allGrowthStates"
    by (simp_all add: cropNames_def seasonNames_def noAdditionalData_def truthyString_def)
  from generateBasicSeasonalAdvice_shape [OF h, of hotDrySummary] h(1,2) show ?thesis
    by (simp add: noAdditionalData_def truthyString_def)
qed

section \<open>Properties of the external-advice parser\<close>

lemma indexOfFrom_absent: "c \<notin> set t \<Longrightarrow> indexOfFrom c t i = -1"
  by (induction t arbitrary: i) auto

lemma indexOfFrom_present:
  "c \<in> set t \<Longrightarrow> indexOfFrom c t i = i + int (length (takeWhile (\<lambda>x. x \<noteq> c) t))"
  by (induction t arbitrary: i) auto

lemma indexOf_minus_one: "indexOf t c = -1 \<longleftrightarrow> c \<notin> set t"
proof
  assume "indexOf t c = -1"
  show "c \<notin> set t"
  proof
    assume "c \<in> set t"
    from indexOfFrom_present [OF this, of 0] \<open>indexOf t c = -1\<close> show False
      by (simp add: indexOf_def)
  qed
next
  assume "c \<notin> set t"
  then show "indexOf t c = -1" by (simp add: indexOf_def indexOfFrom_absent)
qed












section \<open>Properties of the orchestrator\<close>

lemma fetchForecast_degraded:
  "forecastFails w \<Longrightarrow> fetchForecast w la lo = (neutralSummary la lo, [])"
  by (auto simp: forecastFails_def fetchForecast_def split: sum.splits)

lemma gemini_failure_independent:
  "isl (gemini_generateAdvice P n c out fs sn ct ad)
     = isl (gemini_generateAdvice P n c out fs' sn' ct' ad')"
  by (auto simp: gemini_generateAdvice_def parseAIResponse_def parseAIResponse_try_def Let_def
           split: httpOutcome.splits sum.splits option.splits json.splits)

lemma validated_crop:
  "validateCropType ct \<Longrightarrow> \<exists>e. getCropInfo ct = Inr e"
  by (cases "getProperty crops (toLowerCase ct)")
     (simp_all add: validateCropType_def getCropInfo_def)

lemma validated_growthState:
  assumes "validateAdditionalData opts = Inr ad"
  shows "\<not> truthyString (growthState ad) \<or> the (growthState ad) \<in> set allGrowthStates"
proof -
  from assms have ad: "growthState ad = (if truthyString (opt_growthState opts)
                               then Some (toLowerCase (the (opt_growthState opts)))
                               else None)"
    and v: "\<not> (truthyString (opt_growthState opts)
              \<and> toLowerCase (the (opt_growthState opts)) \<notin> set allGrowthStates)"
    by (auto simp: validateAdditionalData_def split: if_splits)
  show ?thesis using ad v by (auto simp: truthyString_def)
qed

lemma soil_message_nonWeather:
  "isSoilPhSuitableForCrop ct (Some ph) = Inr su \<Longrightarrow> warningCheckOf (message su) = None"
  by (auto simp: isSoilPhSuitableForCrop_def Let_def warningCheckOf_def noRainWarning_def
           split: sum.splits if_splits)

lemma soilPhBlock_more:
  assumes "soilPhBlock ct ph a = Inr a'"
  shows "forecast_summary a' = forecast_summary a"
    and "list_all (\<lambda>x. warningCheckOf x = None) (warnings' a)
           \<Longrightarrow> list_all (\<lambda>x. warningCheckOf x = None) (warnings' a')"
  using assms
  by (auto simp: soilPhBlock_def Let_def push_def soil_message_nonWeather
           split: option.splits sum.splits if_splits)

lemma growthStateBlock_more:
  assumes "growthStateBlock g a = Inr a'"
  shows "forecast_summary a' = forecast_summary a" and "warnings' a' = warnings' a"
  using assms
  by (auto simp: growthStateBlock_def split: if_splits sum.splits option.splits)

lemma varietyBlock_more:
  "forecast_summary (varietyBlock e v fs a) = forecast_summary a"
  "list_all (\<lambda>x. warningCheckOf x = None) (warnings' a)
     \<Longrightarrow> list_all (\<lambda>x. warningCheckOf x = None) (warnings' (varietyBlock e v fs a))"
  by (simp_all add: varietyBlock_def Let_def push_def warningCheckOf_def noRainWarning_def
        split: property.splits)

lemma other_blocks_more:
  "forecast_summary (seasonBlock s a) = forecast_summary a"
  "warnings' (seasonBlock s a) = warnings' a"
  "forecast_summary (zeroRainfallBlock fs a) = forecast_summary a"
  "warnings' (zeroRainfallBlock fs a) = warnings' a"
  "forecast_summary (heavyRainBlock fs a) = forecast_summary a"
  "warnings' (heavyRainBlock fs a) = warnings' a"
  "forecast_summary (windBlock fs a) = forecast_summary a"
  "warnings' (windBlock fs a) = warnings' a"
  "forecast_summary (cropBlock c s a) = forecast_summary a"
  "warnings' (cropBlock c s a) = warnings' a"
  "forecast_summary (forecastWarningsBlock fs a) = forecast_summary a"
  "warnings fs = Some [] \<Longrightarrow> warnings' (forecastWarningsBlock fs a) = warnings' a"
  by (simp_all add: seasonBlock_def zeroRainfallBlock_def heavyRainBlock_def windBlock_def
        cropBlock_def forecastWarningsBlock_def pushAll_append split: option.splits)

lemma basic_after_validation:
  assumes "validateCropType ct" and "validateAdditionalData opts = Inr ad"
  shows "\<exists>a. generateBasicSeasonalAdvice ct sn fs ad = Inr a
      \<and> forecast_summary a = forecast_summary (initialAdvice ct sn fs)
      \<and> (warnings fs = Some [] \<longrightarrow> list_all (\<lambda>x. warningCheckOf x = None) (warnings' a))"
proof -
  from validated_crop [OF assms(1)] obtain e where e: "getCropInfo ct = Inr e" by blast
  let ?a0 = "initialAdvice ct sn fs"
  from soilPhBlock_ok [OF e, of "soilPh ad" ?a0] obtain a1 where
    a1: "soilPhBlock ct (soilPh ad) ?a0 = Inr a1" by blast
  from growthStateBlock_ok [OF validated_growthState [OF assms(2)], of a1] obtain a2 where
    a2: "growthStateBlock (growthState ad) a1 = Inr a2" by blast
  have w0: "list_all (\<lambda>x. warningCheckOf x = None) (warnings' ?a0)"
    by (simp add: initialAdvice_def)
  have f2: "forecast_summary a2 = forecast_summary ?a0"
    using soilPhBlock_more(1) [OF a1] growthStateBlock_more(1) [OF a2] by simp
  have w2: "list_all (\<lambda>x. warningCheckOf x = None) (warnings' a2)"
    using soilPhBlock_more(2) [OF a1 w0] growthStateBlock_more(2) [OF a2] by simp
  have r: "generateBasicSeasonalAdvice ct sn fs ad
    = Inr (forecastWarningsBlock fs (cropBlock ct sn
        (windBlock fs (heavyRainBlock fs (zeroRainfallBlock fs
          (seasonBlock sn (varietyBlock e (variety ad) fs a2)))))))"
    by (simp add: generateBasicSeasonalAdvice_def e a1 a2)
  show ?thesis
    unfolding r using f2 w2 by (simp add: other_blocks_more varietyBlock_more)
qed

lemma narrative_not_empty: "\<not> printsEmpty (forecast_summary (initialAdvice ct sn fs))"
  by (simp add: initialAdvice_def printsEmpty_def)

lemma map_of_ensureArray:
  "k' \<noteq> k \<Longrightarrow> map_of (ensureArray k obj) k' = map_of obj k'"
  by (auto simp: ensureArray_def update_conv' split: option.splits json.splits)

lemma parse_try_narrative:
  assumes "parseAIResponse_try P n t fs ad = Inr a"
  shows "truthyField (JObject (ai_fields a)) ''forecast_summary''"
proof -
  from assms obtain obj where
    m: "filter (\<lambda>field. \<not> truthyField (JObject obj) field) requiredFields = []"
    and f: "ai_fields a = AList.delete ''metadata''
                (ensureArray ''productivity_tips''
                  (ensureArray ''warnings'' (ensureArray ''actions'' obj)))"
    by (auto simp: parseAIResponse_try_def Let_def split: if_splits option.splits json.splits)
  from m have "truthyField (JObject obj) ''forecast_summary''"
    by (simp add: requiredFields_def split: if_splits)
  then show ?thesis
    by (simp add: f truthyField_def getField_def delete_conv' map_of_ensureArray)
qed

lemma gemini_narrative:
  assumes "gemini_generateAdvice P n c out fs sn ct ad = Inr a"
  shows "truthyField (JObject (ai_fields a)) ''forecast_summary''"
    and "ai_weather_data (ai_metadata a) = fs"
proof -
  from assms obtain t where t: "parseAIResponse_try P n t fs ad = Inr a"
    by (auto simp: gemini_generateAdvice_def parseAIResponse_def
             split: if_splits httpOutcome.splits sum.splits)
  then show "truthyField (JObject (ai_fields a)) ''forecast_summary''"
    by (rule parse_try_narrative)
  from t show "ai_weather_data (ai_metadata a) = fs"
    by (auto simp: parseAIResponse_try_def Let_def split: if_splits option.splits json.splits)
qed

text \<open>What the choice between the two advisors comes to in degraded mode.\<close>

lemma chooseAdvice_degraded:
  assumes "validateCropType ct" and "validateAdditionalData opts = Inr ad"
    and "warnings fs = Some []"
  shows "\<exists>b m. chooseAdvice w useAI fs [] sn ct ad = Inr (b, m)
     \<and> narrativePopulated b
     \<and> (case b of
          Basic a \<Rightarrow> forecast_summary a = forecast_summary (initialAdvice ct sn fs)
                     \<and> list_all (\<lambda>x. warningCheckOf x = None) (warnings' a) \<and> m = None
        | FromAI kvs \<Rightarrow>
            (\<exists>a. gemini_generateAdvice (jsonParse w) (now w) (cfg w) (geminiOutcome w)
                    fs sn ct ad = Inr a
                  \<and> kvs = ai_fields a \<and> m = Some (ai_metadata a)
                  \<and> ai_weather_data (ai_metadata a) = fs))"
proof -
  from basic_after_validation [OF assms(1,2), of sn fs] assms(3) obtain a where
    a: "generateBasicSeasonalAdvice ct sn fs ad = Inr a"
    "forecast_summary a = forecast_summary (initialAdvice ct sn fs)"
    "list_all (\<lambda>x. warningCheckOf x = None) (warnings' a)" by blast
  show ?thesis
  proof (cases "useAI \<and> \<not> isl (gemini_generateAdvice (jsonParse w) (now w) (cfg w)
                    (geminiOutcome w) fs sn ct ad)")
    case True
    then obtain g where g: "gemini_generateAdvice (jsonParse w) (now w) (cfg w)
                    (geminiOutcome w) fs sn ct ad = Inr g"
      by (cases "gemini_generateAdvice (jsonParse w) (now w) (cfg w)
                    (geminiOutcome w) fs sn ct ad") auto
    have "chooseAdvice w useAI fs [] sn ct ad = Inr (FromAI (ai_fields g), Some (ai_metadata g))"
      using True g by (simp add: chooseAdvice_def Let_def prependWarnings_def)
    then show ?thesis using g gemini_narrative [OF g]
      by (simp add: narrativePopulated_def)
  next
    case False
    then have "chooseAdvice w useAI fs [] sn ct ad = Inr (Basic a, None)"
      using a(1) by (auto simp: chooseAdvice_def Let_def split: sum.splits)
    then show ?thesis using a narrative_not_empty [of ct sn fs]
      by (simp add: narrativePopulated_def)
  qed
qed


lemma generateAdvice_validated:
  assumes "validateAndSetCoordinates (cfg w) (opt_lat opts) (opt_lon opts) = Inr (la, lo)"
    and "truthyString (opt_crop opts)"
    and "validateCropType (toLowerCase (the (opt_crop opts)))"
    and "validateAdditionalData opts = Inr ad"
    and "chooseAdvice w (opt_useAI opts \<noteq> Some False \<and> gemini_isAvailable (cfg w))
           ((fst (fetchForecast w la lo))\<lparr>warnings := Some (snd (fetchForecast w la lo))\<rparr>)
           (snd (fetchForecast w la lo)) (si_season (detectCurrentSeason (month w)))
           (toLowerCase (the (opt_crop opts))) ad = Inr (b, m)"
  shows "generateAdvice w opts =
     Inr \<lparr>body = b,
          metadata =
            \<lparr>generated_at = now w,
             meta_location = (la, lo),
             season_info = detectCurrentSeason (month w),
             weather_service_available = weather_isAvailable (cfg w),
             ai_service_available = gemini_isAvailable (cfg w),
             advice_source =
               (if opt_useAI opts \<noteq> Some False \<and> gemini_isAvailable (cfg w)
                then ''gemini_ai'' else ''basic_seasonal''),
             additional_data = ad,
             api_version = ''1.0.0'',
             source = map_option ai_source m,
             weather_data = map_option ai_weather_data m,
             prompt_version = map_option ai_prompt_version m\<rparr>\<rparr>"
  using assms
  by (simp add: generateAdvice_def generateAdvice_try_def Let_def split_beta)

lemma passesValidation_parts:
  assumes "passesValidation w opts"
  obtains la lo ad where
    "validateAndSetCoordinates (cfg w) (opt_lat opts) (opt_lon opts) = Inr (la, lo)"
    "truthyString (opt_crop opts)"
    "validateCropType (toLowerCase (the (opt_crop opts)))"
    "validateAdditionalData opts = Inr ad"
proof -
  from assms obtain c where
    "validateAndSetCoordinates (cfg w) (opt_lat opts) (opt_lon opts) = Inr c"
    by (cases "validateAndSetCoordinates (cfg w) (opt_lat opts) (opt_lon opts)")
       (auto simp: passesValidation_def)
  moreover from assms obtain ad where "validateAdditionalData opts = Inr ad"
    by (cases "validateAdditionalData opts") (auto simp: passesValidation_def)
  ultimately show ?thesis using assms that [of "fst c" "snd c" ad]
    by (simp add: passesValidation_def)
qed

lemma neutral_warnings: "generateWeatherWarnings (neutralSummary la lo) = [noRainWarning]"
  by (simp add: generateWeatherWarnings_chunks neutralSummary_def temperature_max_def
      temperature_min_def windSpeed_danger_def windSpeed_warning_def)


text \<open>
  A validated request in degraded mode, step by step: the coordinates, the parameters, the
  neutral summary with its empty list of warnings, the advice chosen and the result.
\<close>

lemma degraded_result:
  assumes "passesValidation w opts" and "forecastFails w"
  obtains la lo ad b m where
    "validateAndSetCoordinates (cfg w) (opt_lat opts) (opt_lon opts) = Inr (la, lo)"
    "fetchForecast w la lo = (neutralSummary la lo, [])"
    "narrativePopulated b"
    "case b of
       Basic a \<Rightarrow>
         forecast_summary a
           = forecast_summary (initialAdvice (toLowerCase (the (opt_crop opts)))
               (si_season (detectCurrentSeason (month w)))
               ((neutralSummary la lo)\<lparr>warnings := Some []\<rparr>))
         \<and> list_all (\<lambda>x. warningCheckOf x = None) (warnings' a) \<and> m = None
     | FromAI kvs \<Rightarrow>
         (\<exists>a. gemini_generateAdvice (jsonParse w) (now w) (cfg w) (geminiOutcome w)
                 ((neutralSummary la lo)\<lparr>warnings := Some []\<rparr>)
                 (si_season (detectCurrentSeason (month w)))
                 (toLowerCase (the (opt_crop opts))) ad = Inr a
               \<and> kvs = ai_fields a \<and> m = Some (ai_metadata a)
               \<and> ai_weather_data (ai_metadata a)
                   = (neutralSummary la lo)\<lparr>warnings := Some []\<rparr>)"
    "generateAdvice w opts =
       Inr \<lparr>body = b,
            metadata =
              \<lparr>generated_at = now w,
               meta_location = (la, lo),
               season_info = detectCurrentSeason (month w),
               weather_service_available = weather_isAvailable (cfg w),
               ai_service_available = gemini_isAvailable (cfg w),
               advice_source =
                 (if opt_useAI opts \<noteq> Some False \<and> gemini_isAvailable (cfg w)
                  then ''gemini_ai'' else ''basic_seasonal''),
               additional_data = ad,
               api_version = ''1.0.0'',
               source = map_option ai_source m,
               weather_data = map_option ai_weather_data m,
               prompt_version = map_option ai_prompt_version m\<rparr>\<rparr>"
proof -
  from passesValidation_parts [OF assms(1)] obtain la lo ad where v:
    "validateAndSetCoordinates (cfg w) (opt_lat opts) (opt_lon opts) = Inr (la, lo)"
    "truthyString (opt_crop opts)"
    "validateCropType (toLowerCase (the (opt_crop opts)))"
    "validateAdditionalData opts = Inr ad" by blast
  have f: "fetchForecast w la lo = (neutralSummary la lo, [])"
    by (rule fetchForecast_degraded [OF assms(2)])
  let ?fs = "(neutralSummary la lo)\<lparr>warnings := Some []\<rparr>"
  let ?useAI = "opt_useAI opts \<noteq> Some False \<and> gemini_isAvailable (cfg w)"
  let ?sn = "si_season (detectCurrentSeason (month w))"
  let ?ct = "toLowerCase (the (opt_crop opts))"
  have "warnings ?fs = Some []" by simp
  from chooseAdvice_degraded [OF v(3,4) this, of w ?useAI ?sn] obtain b m where c:
    "chooseAdvice w ?useAI ?fs [] ?sn ?ct ad = Inr (b, m)"
    "narrativePopulated b"
    "case b of
          Basic a \<Rightarrow> forecast_summary a = forecast_summary (initialAdvice ?ct ?sn ?fs)
                     \<and> list_all (\<lambda>x. warningCheckOf x = None) (warnings' a) \<and> m = None
        | FromAI kvs \<Rightarrow>
            (\<exists>a. gemini_generateAdvice (jsonParse w) (now w) (cfg w) (geminiOutcome w)
                    ?fs ?sn ?ct ad = Inr a
                  \<and> kvs = ai_fields a \<and> m = Some (ai_metadata a)
                  \<and> ai_weather_data (ai_metadata a) = ?fs)"
    by blast
  from c(1) have c': "chooseAdvice w ?useAI
           ((fst (fetchForecast w la lo))\<lparr>warnings := Some (snd (fetchForecast w la lo))\<rparr>)
           (snd (fetchForecast w la lo)) ?sn ?ct ad = Inr (b, m)"
    by (simp add: f)
  from that [OF v(1) f c(2,3) generateAdvice_validated [OF v c']] show ?thesis .
qed

text \<open>The sample requests satisfy the conditions they are used under.\<close>

lemma maize_is_valid: "validateCropType (toLowerCase ''maize'')"
  by (simp add: toLowerCase_cropNames validateCropType_def getProperty_def crops_def)

lemma maizeRequest_passes:
  "passesValidation failingWorld maizeRequest"
  "passesValidation unparsableWorld maizeRequest"
  "passesValidation offlineWorld maizeRequest"
  using maize_is_valid
  by (simp_all add: passesValidation_def maizeRequest_def validateAndSetCoordinates_def
        truthyNumber_def truthyString_def validateAdditionalData_def)

lemma sample_forecastFails: "forecastFails failingWorld" "forecastFails offlineWorld"
  by (simp_all add: forecastFails_def failingWorld_def offlineWorld_def weather_getForecast_def
        loadConfig_def keysEnv_def noEnv_def truthyString_def)

lemma sample_generatorFails: "generatorFails unparsableWorld maizeRequest"
proof -
  have "indexOf ''Sorry, I cannot help with that.'' (CHR ''{'') = -1"
    by (simp add: indexOf_minus_one)
  then show ?thesis
    by (simp add: generatorFails_def unparsableWorld_def maizeRequest_def gemini_isAvailable_def
          loadConfig_def keysEnv_def truthyString_def gemini_generateAdvice_def
          parseAIResponse_def parseAIResponse_try_def Let_def)
qed

text \<open>
  C2, as the code has it. For every request that passes validation, when the forecast
  cannot be had the orchestrator still returns an advice: the summary it works from is the
  fixed neutral one (no rain, 15 to 25 degrees, wind 10, condition \<open>unknown\<close>, location
  named \<open>Unknown\<close> at the request's coordinates), the advice has a forecast narrative that
  is not empty, and the metadata flag \<open>weather_service_available\<close> tells whether the
  provider's API key is configured.
\<close>

theorem generateAdvice_degraded_mode:
  assumes "passesValidation w opts" and "forecastFails w"
  shows "\<exists>r la lo. generateAdvice w opts = Inr r
     \<and> narrativePopulated (body r)
     \<and> (weather_service_available (metadata r) \<longleftrightarrow> truthyString (openWeatherApiKey (cfg w)))
     \<and> validateAndSetCoordinates (cfg w) (opt_lat opts) (opt_lon opts) = Inr (la, lo)
     \<and> fst (fetchForecast w la lo)
         = \<lparr>totalRainfall = 0, maxTemperature = Finite 25, minTemperature = Finite 15,
            maxWindSpeed = 10, rainHours = 0, heavyRainHours = 0, windHours = 0,
            conditions = [''unknown''], forecastPeriod = ''48 hours'',
            location = \<lparr>loc_lat = la, loc_lon = lo, loc_name = ''Unknown''\<rparr>,
            warnings = None\<rparr>
     \<and> (case body r of
          Basic a \<Rightarrow>
            forecast_summary a
              = [Lit ''Weather forecast for next 48 hours: '', ofRat 0, Lit ''mm rainfall, '',
                 Val (Finite 15), Lit (degreesC @ '' to ''), Val (Finite 25),
                 Lit (degreesC @ '', wind up to ''), ofRat 10, Lit '' km/h'']
        | FromAI kvs \<Rightarrow>
            weather_data (metadata r)
              = Some ((fst (fetchForecast w la lo))\<lparr>warnings := Some []\<rparr>))"
proof -
  obtain la lo ad b m where d:
    "validateAndSetCoordinates (cfg w) (opt_lat opts) (opt_lon opts) = Inr (la, lo)"
    "fetchForecast w la lo = (neutralSummary la lo, [])"
    "narrativePopulated b"
    "case b of
       Basic a \<Rightarrow>
         forecast_summary a
           = forecast_summary (initialAdvice (toLowerCase (the (opt_crop opts)))
               (si_season (detectCurrentSeason (month w)))
               ((neutralSummary la lo)\<lparr>warnings := Some []\<rparr>))
         \<and> list_all (\<lambda>x. warningCheckOf x = None) (warnings' a) \<and> m = None
     | FromAI kvs \<Rightarrow>
         (\<exists>a. gemini_generateAdvice (jsonParse w) (now w) (cfg w) (geminiOutcome w)
                 ((neutralSummary la lo)\<lparr>warnings := Some []\<rparr>)
                 (si_season (detectCurrentSeason (month w)))
                 (toLowerCase (the (opt_crop opts))) ad = Inr a
               \<and> kvs = ai_fields a \<and> m = Some (ai_metadata a)
               \<and> ai_weather_data (ai_metadata a)
                   = (neutralSummary la lo)\<lparr>warnings := Some []\<rparr>)"
    and r: "generateAdvice w opts =
       Inr \<lparr>body = b,
            metadata =
              \<lparr>generated_at = now w,
               meta_location = (la, lo),
               season_info = detectCurrentSeason (month w),
               weather_service_available = weather_isAvailable (cfg w),
               ai_service_available = gemini_isAvailable (cfg w),
               advice_source =
                 (if opt_useAI opts \<noteq> Some False \<and> gemini_isAvailable (cfg w)
                  then ''gemini_ai'' else ''basic_seasonal''),
               additional_data = ad,
               api_version = ''1.0.0'',
               source = map_option ai_source m,
               weather_data = map_option ai_weather_data m,
               prompt_version = map_option ai_prompt_version m\<rparr>\<rparr>"
    by (rule degraded_result [OF assms])
  have last: "case b of
          Basic a \<Rightarrow>
            forecast_summary a
              = [Lit ''Weather forecast for next 48 hours: '', ofRat 0, Lit ''mm rainfall, '',
                 Val (Finite 15), Lit (degreesC @ '' to ''), Val (Finite 25),
                 Lit (degreesC @ '', wind up to ''), ofRat 10, Lit '' km/h'']
        | FromAI kvs \<Rightarrow>
            map_option ai_weather_data m = Some ((neutralSummary la lo)\<lparr>warnings := Some []\<rparr>)"
    using d(4) by (cases b) (auto simp: initialAdvice_def neutralSummary_def)
  show ?thesis
    apply (rule exI [of _ "projr (generateAdvice w opts)"])
    apply (rule exI [of _ la], rule exI [of _ lo])
    using d(1,3) last
    by (simp add: r d(2) weather_isAvailable_def neutralSummary_def split: adviceBody.splits)
qed

theorem generateAdvice_degraded_mode_witness:
  "passesValidation offlineWorld maizeRequest \<and> forecastFails offlineWorld
   \<and> (\<exists>r. generateAdvice offlineWorld maizeRequest = Inr r
          \<and> narrativePopulated (body r)
          \<and> \<not> weather_service_available (metadata r))"
proof -
  have k: "\<not> truthyString (openWeatherApiKey (cfg offlineWorld))"
    by (simp add: offlineWorld_def loadConfig_def noEnv_def truthyString_def)
  from generateAdvice_degraded_mode [OF maizeRequest_passes(3) sample_forecastFails(2)]
  have "\<exists>r. generateAdvice offlineWorld maizeRequest = Inr r
          \<and> narrativePopulated (body r)
          \<and> \<not> weather_service_available (metadata r)"
    by (elim exE conjE, intro exI conjI) (simp_all add: k)
  then show ?thesis
    using maizeRequest_passes(3) sample_forecastFails(2) by simp
qed

text \<open>
  C2 as stated fails: with the API key configured and the forecast call timing out, the
  request succeeds in degraded mode and the flag \<open>weather_service_available\<close> is true.
\<close>

theorem weather_flag_counterexample:
  "weather_getForecast (cfg failingWorld) (forecastOutcome failingWorld) = Inl WeatherTimeout
   \<and> passesValidation failingWorld maizeRequest
   \<and> \<not> isl (generateAdvice failingWorld maizeRequest)
   \<and> weather_service_available (metadata (projr (generateAdvice failingWorld maizeRequest)))"
proof -
  have t: "weather_getForecast (cfg failingWorld) (forecastOutcome failingWorld)
             = Inl WeatherTimeout"
    by (simp add: failingWorld_def weather_getForecast_def loadConfig_def keysEnv_def
          truthyString_def)
  have k: "weather_isAvailable (cfg failingWorld)"
    by (simp add: failingWorld_def weather_isAvailable_def loadConfig_def keysEnv_def
          truthyString_def)
  obtain la lo ad b m where
    "validateAndSetCoordinates (cfg failingWorld) (opt_lat maizeRequest) (opt_lon maizeRequest)
       = Inr (la, lo)"
    "fetchForecast failingWorld la lo = (neutralSummary la lo, [])"
    "narrativePopulated b"
    "case b of
       Basic a \<Rightarrow>
         forecast_summary a
           = forecast_summary (initialAdvice (toLowerCase (the (opt_crop maizeRequest)))
               (si_season (detectCurrentSeason (month failingWorld)))
               ((neutralSummary la lo)\<lparr>warnings := Some []\<rparr>))
         \<and> list_all (\<lambda>x. warningCheckOf x = None) (warnings' a) \<and> m = None
     | FromAI kvs \<Rightarrow>
         (\<exists>a. gemini_generateAdvice (jsonParse failingWorld) (now failingWorld)
                 (cfg failingWorld) (geminiOutcome failingWorld)
                 ((neutralSummary la lo)\<lparr>warnings := Some []\<rparr>)
                 (si_season (detectCurrentSeason (month failingWorld)))
                 (toLowerCase (the (opt_crop maizeRequest))) ad = Inr a
               \<and> kvs = ai_fields a \<and> m = Some (ai_metadata a)
               \<and> ai_weather_data (ai_metadata a)
                   = (neutralSummary la lo)\<lparr>warnings := Some []\<rparr>)"
    and r: "generateAdvice failingWorld maizeRequest =
       Inr \<lparr>body = b,
            metadata =
              \<lparr>generated_at = now failingWorld,
               meta_location = (la, lo),
               season_info = detectCurrentSeason (month failingWorld),
               weather_service_available = weather_isAvailable (cfg failingWorld),
               ai_service_available = gemini_isAvailable (cfg failingWorld),
               advice_source =
                 (if opt_useAI maizeRequest \<noteq> Some False
                     \<and> gemini_isAvailable (cfg failingWorld)
                  then ''gemini_ai'' else ''basic_seasonal''),
               additional_data = ad,
               api_version = ''1.0.0'',
               source = map_option ai_source m,
               weather_data = map_option ai_weather_data m,
               prompt_version = map_option ai_prompt_version m\<rparr>\<rparr>"
    by (rule degraded_result [OF maizeRequest_passes(1) sample_forecastFails(1)])
  show ?thesis using t k maizeRequest_passes(1) by (simp add: r)
qed

text \<open>
  C10. In degraded mode the list of weather warnings is the empty list the orchestrator
  started with, although the warning generator applied to the neutral summary would give
  the no-rain advisory. The advice returned holds no warning of the warning generator: a
  rule-based advice has only warnings of other kinds, and an advice of the external
  generator has its fields as the generator's answer gave them, nothing prepended.
\<close>

theorem degraded_mode_warnings:
  assumes "passesValidation w opts" and "forecastFails w"
  shows "\<exists>r la lo. generateAdvice w opts = Inr r
     \<and> validateAndSetCoordinates (cfg w) (opt_lat opts) (opt_lon opts) = Inr (la, lo)
     \<and> snd (fetchForecast w la lo) = []
     \<and> generateWeatherWarnings (fst (fetchForecast w la lo)) = [noRainWarning]
     \<and> (case body r of
          Basic a \<Rightarrow>
            list_all (\<lambda>x. warningCheckOf x = None) (warnings' a)
            \<and> noRainWarning \<notin> set (warnings' a)
        | FromAI kvs \<Rightarrow>
            (\<exists>a. gemini_generateAdvice (jsonParse w) (now w) (cfg w) (geminiOutcome w)
                    ((fst (fetchForecast w la lo))\<lparr>warnings := Some []\<rparr>)
                    (si_season (detectCurrentSeason (month w)))
                    (toLowerCase (the (opt_crop opts))) (additional_data (metadata r)) = Inr a
                  \<and> kvs = ai_fields a))"
proof -
  obtain la lo ad b m where d:
    "validateAndSetCoordinates (cfg w) (opt_lat opts) (opt_lon opts) = Inr (la, lo)"
    "fetchForecast w la lo = (neutralSummary la lo, [])"
    "narrativePopulated b"
    "case b of
       Basic a \<Rightarrow>
         forecast_summary a
           = forecast_summary (initialAdvice (toLowerCase (the (opt_crop opts)))
               (si_season (detectCurrentSeason (month w)))
               ((neutralSummary la lo)\<lparr>warnings := Some []\<rparr>))
         \<and> list_all (\<lambda>x. warningCheckOf x = None) (warnings' a) \<and> m = None
     | FromAI kvs \<Rightarrow>
         (\<exists>a. gemini_generateAdvice (jsonParse w) (now w) (cfg w) (geminiOutcome w)
                 ((neutralSummary la lo)\<lparr>warnings := Some []\<rparr>)
                 (si_season (detectCurrentSeason (month w)))
                 (toLowerCase (the (opt_crop opts))) ad = Inr a
               \<and> kvs = ai_fields a \<and> m = Some (ai_metadata a)
               \<and> ai_weather_data (ai_metadata a)
                   = (neutralSummary la lo)\<lparr>warnings := Some []\<rparr>)"
    and r: "generateAdvice w opts =
       Inr \<lparr>body = b,
            metadata =
              \<lparr>generated_at = now w,
               meta_location = (la, lo),
               season_info = detectCurrentSeason (month w),
               weather_service_available = weather_isAvailable (cfg w),
               ai_service_available = gemini_isAvailable (cfg w),
               advice_source =
                 (if opt_useAI opts \<noteq> Some False \<and> gemini_isAvailable (cfg w)
                  then ''gemini_ai'' else ''basic_seasonal''),
               additional_data = ad,
               api_version = ''1.0.0'',
               source = map_option ai_source m,
               weather_data = map_option ai_weather_data m,
               prompt_version = map_option ai_prompt_version m\<rparr>\<rparr>"
    by (rule degraded_result [OF assms])
  have nr: "list_all (\<lambda>x. warningCheckOf x = None) ws \<Longrightarrow> noRainWarning \<notin> set ws" for ws
    by (auto simp: list_all_iff warningCheckOf_simps)
  have last: "case b of
          Basic a \<Rightarrow>
            list_all (\<lambda>x. warningCheckOf x = None) (warnings' a)
            \<and> noRainWarning \<notin> set (warnings' a)
        | FromAI kvs \<Rightarrow>
            (\<exists>a. gemini_generateAdvice (jsonParse w) (now w) (cfg w) (geminiOutcome w)
                 ((neutralSummary la lo)\<lparr>warnings := Some []\<rparr>)
                 (si_season (detectCurrentSeason (month w)))
                 (toLowerCase (the (opt_crop opts))) ad = Inr a \<and> kvs = ai_fields a)"
    using d(4) nr by (cases b) auto
  show ?thesis
    apply (rule exI [of _ "projr (generateAdvice w opts)"])
    apply (rule exI [of _ la], rule exI [of _ lo])
    using d(1) last
    by (simp add: r d(2) neutral_warnings split: adviceBody.splits)
qed

theorem degraded_mode_warnings_witness:
  "passesValidation failingWorld maizeRequest \<and> forecastFails failingWorld
   \<and> (\<exists>r la lo. generateAdvice failingWorld maizeRequest = Inr r
          \<and> snd (fetchForecast failingWorld la lo) = []
          \<and> generateWeatherWarnings (fst (fetchForecast failingWorld la lo)) = [noRainWarning])"
proof -
  from degraded_mode_warnings [OF maizeRequest_passes(1) sample_forecastFails(1)]
  have "\<exists>r la lo. generateAdvice failingWorld maizeRequest = Inr r
          \<and> snd (fetchForecast failingWorld la lo) = []
          \<and> generateWeatherWarnings (fst (fetchForecast failingWorld la lo)) = [noRainWarning]"
    by (elim exE conjE, intro exI conjI) assumption+
  then show ?thesis
    using maizeRequest_passes(1) sample_forecastFails(1) by simp
qed

text \<open>
  C1 against the code. When the generator is asked and fails, a validated request still
  succeeds and its advice is the rule-based one, but the metadata calls the source
  \<open>gemini_ai\<close>: the tag is computed from the decision to ask the generator, which the
  fallback does not change.
\<close>

theorem generateAdvice_fallback_tag:
  assumes "passesValidation w opts" and "generatorFails w opts"
  shows "\<exists>r. generateAdvice w opts = Inr r \<and> isBasic (body r)
     \<and> advice_source (metadata r) = ''gemini_ai''
     \<and> advice_source (metadata r) \<noteq> ''basic_seasonal''
     \<and> source (metadata r) = None"
proof -
  from passesValidation_parts [OF assms(1)] obtain la lo ad where v:
    "validateAndSetCoordinates (cfg w) (opt_lat opts) (opt_lon opts) = Inr (la, lo)"
    "truthyString (opt_crop opts)"
    "validateCropType (toLowerCase (the (opt_crop opts)))"
    "validateAdditionalData opts = Inr ad" by blast
  let ?fs = "(fst (fetchForecast w la lo))\<lparr>warnings := Some (snd (fetchForecast w la lo))\<rparr>"
  let ?sn = "si_season (detectCurrentSeason (month w))"
  let ?ct = "toLowerCase (the (opt_crop opts))"
  from assms(2) have u: "opt_useAI opts \<noteq> Some False \<and> gemini_isAvailable (cfg w)"
    and "isl (gemini_generateAdvice (jsonParse w) (now w) (cfg w) (geminiOutcome w)
                (neutralSummary 0 0) [] [] noAdditionalData)"
    by (simp_all add: generatorFails_def)
  then have g: "isl (gemini_generateAdvice (jsonParse w) (now w) (cfg w) (geminiOutcome w)
                ?fs ?sn ?ct ad)"
    using gemini_failure_independent by blast
  from basic_after_validation [OF v(3,4), of ?sn ?fs] obtain a where
    a: "generateBasicSeasonalAdvice ?ct ?sn ?fs ad = Inr a" by blast
  have c: "chooseAdvice w (opt_useAI opts \<noteq> Some False \<and> gemini_isAvailable (cfg w)) ?fs
             (snd (fetchForecast w la lo)) ?sn ?ct ad = Inr (Basic a, None)"
    using g a u by (auto simp: chooseAdvice_def Let_def split: sum.splits)
  show ?thesis
    using u by (simp add: generateAdvice_validated [OF v c] isBasic_def)
qed

theorem generateAdvice_fallback_tag_witness:
  "passesValidation unparsableWorld maizeRequest \<and> generatorFails unparsableWorld maizeRequest
   \<and> (\<exists>r. generateAdvice unparsableWorld maizeRequest = Inr r \<and> isBasic (body r)
          \<and> advice_source (metadata r) = ''gemini_ai'')"
  using generateAdvice_fallback_tag [OF maizeRequest_passes(2) sample_generatorFails]
    maizeRequest_passes(2) sample_generatorFails
  by blast

end
